theory Spec2Isabelle
  imports Complex_Main "HOL-Library.Word"
begin

section \<open>Phaser Matter World (src/physics/matter-js/World.js)\<close>

text \<open>
  A shallow embedding of the methods of the Matter \<open>World\<close> class. JavaScript numbers
  are modelled as reals (no rounding, no NaN, no infinities); an argument that may be
  \<open>undefined\<close> is an \<open>option\<close>, \<open>None\<close> standing for \<open>undefined\<close>; an object
  reference is a natural number; a thrown \<open>TypeError\<close> is the left summand of a result.
\<close>

subsection \<open>The gravity of the engine's world\<close>

record gravity =
  gravity_x :: real
  gravity_y :: real
  gravity_scale :: real

subsection \<open>Bodies created by the world, and the engine's composite\<close>

text \<open>The options object literal handed to \<open>Bodies.rectangle\<close> by \<open>updateWall\<close>.\<close>

record body_options =
  opt_isStatic :: bool
  opt_friction :: real
  opt_frictionStatic :: real

text \<open>
  Modelled from the spec: \<open>Bodies.rectangle\<close> (lib/factory/Bodies) is not part of the
  source at hand. The spec calls its result "a new static rectangular body with zero
  friction and zero static friction"; the model records the centre, the size and the
  options it was called with.
\<close>

record rect_body =
  rect_x :: real
  rect_y :: real
  rect_width :: real
  rect_height :: real
  rect_isStatic :: bool
  rect_friction :: real
  rect_frictionStatic :: real

definition Bodies_rectangle :: "real \<Rightarrow> real \<Rightarrow> real \<Rightarrow> real \<Rightarrow> body_options \<Rightarrow> rect_body" where
  "Bodies_rectangle x y width height options =
     \<lparr>rect_x = x, rect_y = y, rect_width = width, rect_height = height,
      rect_isStatic = opt_isStatic options, rect_friction = opt_friction options,
      rect_frictionStatic = opt_frictionStatic options\<rparr>"

text \<open>
  The engine's world composite: its bodies, each under the reference of its object, in
  the order they were added, and its gravity.
\<close>

record matter_world =
  bodies :: "(nat \<times> rect_body) list"
  gravity :: gravity

text \<open>
  Modelled from the spec: \<open>MatterWorld.add\<close> and \<open>MatterWorld.remove\<close>
  (lib/body/World) are not part of the source at hand; the spec describes them as
  "add/remove on the underlying engine composite".
\<close>

definition MatterWorld_add :: "matter_world \<Rightarrow> nat \<Rightarrow> rect_body \<Rightarrow> matter_world" where
  "MatterWorld_add lw r b = lw\<lparr>bodies := bodies lw @ [(r, b)]\<rparr>"

definition MatterWorld_remove :: "matter_world \<Rightarrow> nat \<Rightarrow> matter_world" where
  "MatterWorld_remove lw r = lw\<lparr>bodies := filter (\<lambda>p. fst p \<noteq> r) (bodies lw)\<rparr>"

subsection \<open>The engine and the events\<close>

text \<open>
  Modelled from the spec: \<open>Engine.update\<close> (lib/core/Engine) is a black box to the
  World, "the engine's step function". The model of the engine is the log of the steps
  it was asked for, each with the delta and the correction it was given.
\<close>

type_synonym engine = "(real option \<times> real option) list"

definition Engine_update :: "engine \<Rightarrow> real option \<Rightarrow> real option \<Rightarrow> engine" where
  "Engine_update e delta correction = e @ [(delta, correction)]"

text \<open>A collision pair and an event object of the engine.\<close>

record pair =
  pair_bodyA :: nat
  pair_bodyB :: nat

record engine_event =
  event_timestamp :: real
  event_pairs :: "pair list"

text \<open>The event names of \<open>./events\<close>.\<close>

datatype event_name =
  BEFORE_UPDATE | AFTER_UPDATE | COLLISION_START | COLLISION_ACTIVE | COLLISION_END
  | PAUSE | RESUME

text \<open>
  One call of the World's own \<open>emit\<close>: the event name and the arguments handed to
  the listeners (an argument that is absent or \<open>undefined\<close> is \<open>None\<close>).
\<close>

record emission =
  em_name :: event_name
  em_event :: "engine_event option"
  em_bodyA :: "nat option"
  em_bodyB :: "nat option"

subsection \<open>The World\<close>

record world =
  sceneWidth :: real
  sceneHeight :: real
  engine :: engine
  localWorld :: matter_world
  walls :: "string \<Rightarrow> nat option"
  enabled :: bool
  correction :: real
  getDelta :: "real \<Rightarrow> real \<Rightarrow> real"
  autoUpdate :: bool
  emitted :: "emission list"
  nextRef :: nat

text \<open>
  \<open>sceneWidth\<close> and \<open>sceneHeight\<close> are \<open>scene.sys.scale.width\<close> and \<open>height\<close>;
  \<open>emitted\<close> is the log of the calls of \<open>emit\<close>; \<open>nextRef\<close> is the reference the
  next created object gets.
\<close>

definition emit :: "world \<Rightarrow> event_name \<Rightarrow> engine_event option \<Rightarrow> nat option \<Rightarrow> nat option \<Rightarrow> world" where
  "emit w name event bodyA bodyB =
     w\<lparr>emitted := emitted w @
        [\<lparr>em_name = name, em_event = event, em_bodyA = bodyA, em_bodyB = bodyB\<rparr>]\<rparr>"

subsection \<open>setEventsProxy\<close>

definition on_beforeUpdate :: "world \<Rightarrow> engine_event \<Rightarrow> world" where
  "on_beforeUpdate w event = emit w BEFORE_UPDATE (Some event) None None"

definition on_afterUpdate :: "world \<Rightarrow> engine_event \<Rightarrow> world" where
  "on_afterUpdate w event = emit w AFTER_UPDATE (Some event) None None"

definition on_collisionStart :: "world \<Rightarrow> engine_event \<Rightarrow> world" where
  "on_collisionStart w event =
     (let pairs = event_pairs event;
          bodyA = (if length pairs > 0 then Some (pair_bodyA (pairs ! 0)) else None);
          bodyB = (if length pairs > 0 then Some (pair_bodyB (pairs ! 0)) else None)
      in emit w COLLISION_START (Some event) bodyA bodyB)"

definition on_collisionActive :: "world \<Rightarrow> engine_event \<Rightarrow> world" where
  "on_collisionActive w event =
     (let pairs = event_pairs event;
          bodyA = (if length pairs > 0 then Some (pair_bodyA (pairs ! 0)) else None);
          bodyB = (if length pairs > 0 then Some (pair_bodyB (pairs ! 0)) else None)
      in emit w COLLISION_ACTIVE (Some event) bodyA bodyB)"

definition on_collisionEnd :: "world \<Rightarrow> engine_event \<Rightarrow> world" where
  "on_collisionEnd w event =
     (let pairs = event_pairs event;
          bodyA = (if length pairs > 0 then Some (pair_bodyA (pairs ! 0)) else None);
          bodyB = (if length pairs > 0 then Some (pair_bodyB (pairs ! 0)) else None)
      in emit w COLLISION_END (Some event) bodyA bodyB)"

text \<open>
  \<open>setEventsProxy\<close> registers five listeners on the engine, in this order. The
  registrations are the list of the engine's event names with their callbacks.
\<close>

definition setEventsProxy :: "(string \<times> (world \<Rightarrow> engine_event \<Rightarrow> world)) list" where
  "setEventsProxy =
     [(''beforeUpdate'', on_beforeUpdate),
      (''afterUpdate'', on_afterUpdate),
      (''collisionStart'', on_collisionStart),
      (''collisionActive'', on_collisionActive),
      (''collisionEnd'', on_collisionEnd)]"

text \<open>
  Modelled from the spec: \<open>MatterEvents\<close> (lib/core/Events) is not part of the source
  at hand. A notification of the engine runs the callbacks registered under its name, in
  the order of registration, each to completion before the next.
\<close>

fun MatterEvents_trigger ::
  "(string \<times> (world \<Rightarrow> engine_event \<Rightarrow> world)) list \<Rightarrow> string \<Rightarrow> engine_event \<Rightarrow> world \<Rightarrow> world" where
  "MatterEvents_trigger [] name event w = w"
| "MatterEvents_trigger ((n, callback) # rest) name event w =
     MatterEvents_trigger rest name event (if n = name then callback w event else w)"

subsection \<open>setBounds and updateWall\<close>

text \<open>\<open>create\<close>: the new body gets a fresh reference and is added to the composite.\<close>

definition create :: "world \<Rightarrow> real \<Rightarrow> real \<Rightarrow> real \<Rightarrow> real \<Rightarrow> body_options \<Rightarrow> nat \<times> world" where
  "create w x y width height options =
     (let body = Bodies_rectangle x y width height options;
          r = nextRef w
      in (r, w\<lparr>localWorld := MatterWorld_add (localWorld w) r body, nextRef := Suc r\<rparr>))"

definition updateWall :: "world \<Rightarrow> bool \<Rightarrow> string \<Rightarrow> real \<Rightarrow> real \<Rightarrow> real \<Rightarrow> real \<Rightarrow> world" where
  "updateWall w add position x y width height =
     (let wall = walls w position in
      if add then
        (let w1 = (case wall of
                     Some r \<Rightarrow> w\<lparr>localWorld := MatterWorld_remove (localWorld w) r\<rparr>
                   | None \<Rightarrow> w);
             x' = x + width / 2;
             y' = y + height / 2;
             (body, w2) = create w1 x' y' width height
                \<lparr>opt_isStatic = True, opt_friction = 0, opt_frictionStatic = 0\<rparr>
         in w2\<lparr>walls := (walls w2)(position := Some body)\<rparr>)
      else
        (let w1 = (case wall of
                     Some r \<Rightarrow> w\<lparr>localWorld := MatterWorld_remove (localWorld w) r\<rparr>
                   | None \<Rightarrow> w)
         in w1\<lparr>walls := (walls w1)(position := None)\<rparr>))"

definition setBounds ::
  "world \<Rightarrow> real option \<Rightarrow> real option \<Rightarrow> real option \<Rightarrow> real option \<Rightarrow> real option \<Rightarrow>
   bool option \<Rightarrow> bool option \<Rightarrow> bool option \<Rightarrow> bool option \<Rightarrow> world" where
  "setBounds w x0 y0 width0 height0 thickness0 left0 right0 top0 bottom0 =
     (let x = (case x0 of None \<Rightarrow> 0 | Some v \<Rightarrow> v);
          y = (case y0 of None \<Rightarrow> 0 | Some v \<Rightarrow> v);
          width = (case width0 of None \<Rightarrow> sceneWidth w | Some v \<Rightarrow> v);
          height = (case height0 of None \<Rightarrow> sceneHeight w | Some v \<Rightarrow> v);
          thickness = (case thickness0 of None \<Rightarrow> 128 | Some v \<Rightarrow> v);
          left = (case left0 of None \<Rightarrow> True | Some v \<Rightarrow> v);
          right = (case right0 of None \<Rightarrow> True | Some v \<Rightarrow> v);
          top = (case top0 of None \<Rightarrow> True | Some v \<Rightarrow> v);
          bottom = (case bottom0 of None \<Rightarrow> True | Some v \<Rightarrow> v);
          w1 = updateWall w left ''left'' (x - thickness) (y - thickness) thickness
                 (height + (thickness * 2));
          w2 = updateWall w1 right ''right'' (x + width) (y - thickness) thickness
                 (height + (thickness * 2));
          w3 = updateWall w2 top ''top'' x (y - thickness) width thickness;
          w4 = updateWall w3 bottom ''bottom'' x (y + height) width thickness
      in w4)"

subsection \<open>disableGravity and setGravity\<close>

definition disableGravity :: "world \<Rightarrow> world" where
  "disableGravity w =
     (let lw1 = (localWorld w)\<lparr>gravity := (gravity (localWorld w))\<lparr>gravity_x := 0\<rparr>\<rparr>;
          lw2 = lw1\<lparr>gravity := (gravity lw1)\<lparr>gravity_y := 0\<rparr>\<rparr>;
          lw3 = lw2\<lparr>gravity := (gravity lw2)\<lparr>gravity_scale := 0\<rparr>\<rparr>
      in w\<lparr>localWorld := lw3\<rparr>)"

definition setGravity :: "world \<Rightarrow> real option \<Rightarrow> real option \<Rightarrow> real option \<Rightarrow> world" where
  "setGravity w x0 y0 scale =
     (let x = (case x0 of None \<Rightarrow> 0 | Some v \<Rightarrow> v);
          y = (case y0 of None \<Rightarrow> 1 | Some v \<Rightarrow> v);
          lw1 = (localWorld w)\<lparr>gravity := (gravity (localWorld w))\<lparr>gravity_x := x\<rparr>\<rparr>;
          lw2 = lw1\<lparr>gravity := (gravity lw1)\<lparr>gravity_y := y\<rparr>\<rparr>;
          lw3 = (case scale of
                   Some s \<Rightarrow> lw2\<lparr>gravity := (gravity lw2)\<lparr>gravity_scale := s\<rparr>\<rparr>
                 | None \<Rightarrow> lw2)
      in w\<lparr>localWorld := lw3\<rparr>)"

subsection \<open>update and step\<close>

definition update :: "world \<Rightarrow> real \<Rightarrow> real \<Rightarrow> world" where
  "update w time delta =
     (if enabled w \<and> autoUpdate w
      then w\<lparr>engine := Engine_update (engine w) (Some (getDelta w time delta)) (Some (correction w))\<rparr>
      else w)"

definition step :: "world \<Rightarrow> real option \<Rightarrow> real option \<Rightarrow> world" where
  "step w delta correction0 = w\<lparr>engine := Engine_update (engine w) delta correction0\<rparr>"

text \<open>
  The two timestep presets take no arguments; called as \<open>getDelta(time, delta)\<close> they
  ignore both.
\<close>

definition update60Hz :: "real \<Rightarrow> real \<Rightarrow> real" where
  "update60Hz time delta = 1000 / 60"

definition update30Hz :: "real \<Rightarrow> real \<Rightarrow> real" where
  "update30Hz time delta = 1000 / 30"

definition pause :: "world \<Rightarrow> world" where
  "pause w = emit (w\<lparr>enabled := False\<rparr>) PAUSE None None None"

definition resume :: "world \<Rightarrow> world" where
  "resume w = emit (w\<lparr>enabled := True\<rparr>) RESUME None None None"

subsection \<open>Collision groups and categories\<close>

text \<open>
  The three counters are static fields of the engine's \<open>Body\<close> module, one set for the
  whole process: they are a state of their own, beside every World.
\<close>

record body_statics =
  Body_nextCollidingGroupId :: int
  Body_nextNonCollidingGroupId :: int
  Body_nextCategory :: int

text \<open>
  Modelled from the spec: \<open>Body.nextGroup\<close> and \<open>Body.nextCategory\<close> (lib/body/Body)
  are not part of the source at hand. The spec: \<open>nextGroup\<close> "returns and advances the
  colliding counter (post-increment from 1) if false, or the non-colliding counter
  (post-decrement from -1) if true"; \<open>nextCategory\<close> "returns the current category
  counter then left-shifts it by one bit". The shift is JavaScript's, on 32 bits, signed.
\<close>

definition MatterBody_nextGroup :: "bool option \<Rightarrow> body_statics \<Rightarrow> int \<times> body_statics" where
  "MatterBody_nextGroup isNonColliding st =
     (if isNonColliding = Some True
      then (Body_nextNonCollidingGroupId st,
            st\<lparr>Body_nextNonCollidingGroupId := Body_nextNonCollidingGroupId st - 1\<rparr>)
      else (Body_nextCollidingGroupId st,
            st\<lparr>Body_nextCollidingGroupId := Body_nextCollidingGroupId st + 1\<rparr>))"

definition shiftLeft32 :: "int \<Rightarrow> nat \<Rightarrow> int" where
  "shiftLeft32 a n = sint (push_bit (n mod 32) (word_of_int a :: 32 word))"

definition MatterBody_nextCategory :: "body_statics \<Rightarrow> int \<times> body_statics" where
  "MatterBody_nextCategory st =
     (Body_nextCategory st, st\<lparr>Body_nextCategory := shiftLeft32 (Body_nextCategory st) 1\<rparr>)"

definition nextGroup :: "world \<Rightarrow> bool option \<Rightarrow> body_statics \<Rightarrow> int \<times> body_statics" where
  "nextGroup w isNonColliding st = MatterBody_nextGroup isNonColliding st"

definition nextCategory :: "world \<Rightarrow> body_statics \<Rightarrow> int \<times> body_statics" where
  "nextCategory w st = MatterBody_nextCategory st"

definition resetCollisionIDs :: "world \<Rightarrow> body_statics \<Rightarrow> world \<times> body_statics" where
  "resetCollisionIDs w st =
     (let st1 = st\<lparr>Body_nextCollidingGroupId := 1\<rparr>;
          st2 = st1\<lparr>Body_nextNonCollidingGroupId := - 1\<rparr>;
          st3 = st2\<lparr>Body_nextCategory := 1\<rparr>
      in (w, st3))"

subsection \<open>The debug renderer: data\<close>

type_synonym color = nat

record debug_config =
  showBody :: bool
  showStaticBody :: bool
  showSleeping :: bool
  showJoint :: bool
  showInternalEdges :: bool
  showConvexHulls :: bool
  renderFill :: bool
  renderStroke :: bool
  lineThickness :: real
  fillColor :: color
  strokeColor :: color
  staticFillColor :: color
  staticStrokeColor :: color
  staticBodySleepOpacity :: real
  sleepFillColor :: color
  sleepStrokeColor :: color
  jointColor :: color
  jointLineThickness :: real
  pinSize :: real
  pinColor :: color
  springColor :: color
  anchorColor :: color
  anchorSize :: real
  hullColor :: color

record vec =
  vx :: real
  vy :: real

record vertex =
  vert_x :: real
  vert_y :: real
  isInternal :: bool

record render_props =
  visible :: bool
  opacity :: real

text \<open>
  A part of a body is a body of the engine too; the model keeps of it the fields that
  \<open>renderBody\<close> reads. \<open>circleRadius\<close> is \<open>None\<close> where the part has none.
\<close>

record part =
  part_render :: render_props
  circleRadius :: "real option"
  part_position :: vec
  part_vertices :: "vertex list"

record body =
  body_render :: render_props
  isStatic :: bool
  isSleeping :: bool
  parts :: "part list"
  body_vertices :: "vertex list"

text \<open>
  The Graphics object is the sequence of the calls made on it, in order. The last
  argument of \<open>FillStyle\<close> and \<open>LineStyle\<close> is the alpha, \<open>None\<close> when the call
  leaves it out.
\<close>

datatype draw_op =
  Clear
  | BeginPath
  | MoveTo real real
  | LineTo real real
  | Arc real real real real real
  | ClosePath
  | FillStyle color "real option"
  | FillPath
  | LineStyle real color "real option"
  | StrokePath
  | StrokeCircle real real real
  | FillCircle real real real

type_synonym graphics = "draw_op list"

datatype error = TypeError

subsection \<open>renderBody\<close>

text \<open>The loop over the vertices of a polygon part, from index \<open>j\<close> on.\<close>

function polygonLoop :: "vertex list \<Rightarrow> bool \<Rightarrow> nat \<Rightarrow> graphics \<Rightarrow> graphics" where
  "polygonLoop vertices showInternalEdges' j g =
     (if j < length vertices then
        (let vert = vertices ! j;
             g1 = (if \<not> isInternal (vertices ! (j - 1)) \<or> showInternalEdges'
                   then g @ [LineTo (vert_x vert) (vert_y vert)]
                   else g @ [MoveTo (vert_x vert) (vert_y vert)]);
             g2 = (if isInternal vert \<and> \<not> showInternalEdges'
                   then (let nextIndex = (j + 1) mod length vertices
                         in g1 @ [MoveTo (vert_x (vertices ! nextIndex)) (vert_y (vertices ! nextIndex))])
                   else g1)
         in polygonLoop vertices showInternalEdges' (j + 1) g2)
      else g)"
  by pat_completeness auto
termination
  by (relation "measure (\<lambda>(vertices, showInternalEdges', j, g). length vertices - j)") auto

declare polygonLoop.simps [simp del]

text \<open>
  The path of one part: an arc for a circle, the polygon otherwise. Reading
  \<open>vertices[0].x\<close> of an empty vertex list throws.
\<close>

definition partPath :: "part \<Rightarrow> bool \<Rightarrow> graphics \<Rightarrow> error + graphics" where
  "partPath part showInternalEdges' g =
     (if circleRadius part \<noteq> None \<and> circleRadius part \<noteq> Some 0 then
        Inr (g @ [BeginPath,
                  Arc (vx (part_position part)) (vy (part_position part))
                      (case circleRadius part of Some r \<Rightarrow> r | None \<Rightarrow> 0) 0 (2 * pi)])
      else
        (let vertices = part_vertices part in
         if vertices = [] then Inl TypeError
         else
           Inr (polygonLoop vertices showInternalEdges' 1
                  (g @ [BeginPath, MoveTo (vert_x (vertices ! 0)) (vert_y (vertices ! 0))])
                @ [ClosePath])))"

text \<open>
  The loop over the parts, from index \<open>k\<close> on. \<open>opacity\<close> is the variable of the
  source: where \<open>usePartOpacity\<close> holds, each round overwrites it.
\<close>

function renderBody_loop ::
  "part list \<Rightarrow> nat \<Rightarrow> bool \<Rightarrow> color option \<Rightarrow> color option \<Rightarrow> real option \<Rightarrow> bool \<Rightarrow> real \<Rightarrow>
   graphics \<Rightarrow> error + graphics" where
  "renderBody_loop parts' k showInternalEdges' lineColor fillColor' opacity0 usePartOpacity lineThickness' g =
     (if k < length parts' then
        (let part = parts' ! k;
             render = part_render part;
             opacity1 = (if usePartOpacity then Some (opacity render) else opacity0)
         in if \<not> visible render \<or> opacity1 = Some 0 then
              renderBody_loop parts' (k + 1) showInternalEdges' lineColor fillColor' opacity1
                usePartOpacity lineThickness' g
            else
              (case partPath part showInternalEdges' g of
                 Inl e \<Rightarrow> Inl e
               | Inr g1 \<Rightarrow>
                   (let g2 = (case fillColor' of
                                Some c \<Rightarrow> g1 @ [FillStyle c opacity1, FillPath]
                              | None \<Rightarrow> g1);
                        g3 = (case lineColor of
                                Some c \<Rightarrow> g2 @ [LineStyle lineThickness' c opacity1, StrokePath]
                              | None \<Rightarrow> g2)
                    in renderBody_loop parts' (k + 1) showInternalEdges' lineColor fillColor' opacity1
                         usePartOpacity lineThickness' g3)))
      else Inr g)"
  by pat_completeness auto
termination
  by (relation "measure (\<lambda>(parts', k, rest). length parts' - k)") auto

declare renderBody_loop.simps [simp del]

definition renderBody ::
  "body \<Rightarrow> graphics \<Rightarrow> bool \<Rightarrow> color option \<Rightarrow> color option \<Rightarrow> real option \<Rightarrow> real option \<Rightarrow>
   error + graphics" where
  "renderBody body g showInternalEdges' lineColor fillColor' opacity0 lineThickness0 =
     (let lineThickness' = (case lineThickness0 of None \<Rightarrow> 1 | Some t \<Rightarrow> t);
          usePartOpacity = (opacity0 = None \<or> opacity0 = Some 0);
          partsLength = length (parts body)
      in renderBody_loop (parts body) (if partsLength > 1 then 1 else 0) showInternalEdges'
           lineColor fillColor' opacity0 usePartOpacity lineThickness' g)"

subsection \<open>renderConvexHull\<close>

function hullLoop :: "vertex list \<Rightarrow> nat \<Rightarrow> graphics \<Rightarrow> graphics" where
  "hullLoop verts v g =
     (if v < length verts
      then hullLoop verts (v + 1) (g @ [LineTo (vert_x (verts ! v)) (vert_y (verts ! v))])
      else g)"
  by pat_completeness auto
termination
  by (relation "measure (\<lambda>(verts, v, g). length verts - v)") auto

declare hullLoop.simps [simp del]

definition renderConvexHull :: "body \<Rightarrow> graphics \<Rightarrow> color \<Rightarrow> real option \<Rightarrow> error + graphics" where
  "renderConvexHull body g hullColor0 lineThickness0 =
     (let lineThickness' = (case lineThickness0 of None \<Rightarrow> 1 | Some t \<Rightarrow> t);
          partsLength = length (parts body)
      in if partsLength > 1 then
           (let verts = body_vertices body in
            if verts = [] then Inl TypeError
            else
              Inr (hullLoop verts 1
                     (g @ [LineStyle lineThickness' hullColor0 None, BeginPath,
                           MoveTo (vert_x (verts ! 0)) (vert_y (verts ! 0))])
                   @ [LineTo (vert_x (verts ! 0)) (vert_y (verts ! 0)), StrokePath]))
         else Inr g)"

subsection \<open>renderBodies\<close>

text \<open>
  The body of the loop of \<open>renderBodies\<close>, for one body; \<open>this.debugConfig\<close> and
  \<open>this.debugGraphic\<close> are the arguments \<open>config\<close> and \<open>g\<close>.
\<close>

definition renderBodies_body :: "debug_config \<Rightarrow> body \<Rightarrow> graphics \<Rightarrow> error + graphics" where
  "renderBodies_body config body g =
     (if \<not> visible (body_render body) then Inr g
      else if (\<not> showStaticBody config \<and> isStatic body) \<or> (\<not> showBody config \<and> \<not> isStatic body)
      then Inr g
      else
        (let opacity0 = opacity (body_render body);
             lineStyle0 = Some (strokeColor config);
             fillStyle0 = Some (fillColor config);
             opacity1 = (if showSleeping config \<and> isSleeping body \<and> isStatic body
                         then opacity0 * staticBodySleepOpacity config else opacity0);
             lineStyle1 = (if showSleeping config \<and> isSleeping body \<and> \<not> isStatic body
                           then Some (sleepStrokeColor config) else lineStyle0);
             fillStyle1 = (if showSleeping config \<and> isSleeping body \<and> \<not> isStatic body
                           then Some (sleepFillColor config) else fillStyle0);
             lineStyle2 = (if isStatic body then Some (staticStrokeColor config) else lineStyle1);
             fillStyle2 = (if isStatic body then Some (staticFillColor config) else fillStyle1);
             fillStyle3 = (if \<not> renderFill config then None else fillStyle2);
             lineStyle3 = (if \<not> renderStroke config then None else lineStyle2)
         in case renderBody body g (showInternalEdges config) lineStyle3 fillStyle3 (Some opacity1)
                   (Some (lineThickness config)) of
              Inl e \<Rightarrow> Inl e
            | Inr g1 \<Rightarrow>
                (let partsLength = length (parts body)
                 in if showConvexHulls config \<and> partsLength > 1
                    then renderConvexHull body g1 (hullColor config) (Some (lineThickness config))
                    else Inr g1)))"

fun renderBodies_loop :: "debug_config \<Rightarrow> body list \<Rightarrow> graphics \<Rightarrow> error + graphics" where
  "renderBodies_loop config [] g = Inr g"
| "renderBodies_loop config (body # rest) g =
     (case renderBodies_body config body g of
        Inl e \<Rightarrow> Inl e
      | Inr g1 \<Rightarrow> renderBodies_loop config rest g1)"

definition renderBodies :: "debug_config \<Rightarrow> graphics \<Rightarrow> body list \<Rightarrow> error + graphics" where
  "renderBodies config g bodies0 = renderBodies_loop config bodies0 g"

subsection \<open>renderConstraint\<close>

text \<open>
  Modelled from the spec: the helpers of \<open>Vector\<close> (lib/geometry/Vector) and
  \<open>Common.clamp\<close> (lib/core/Common) are not part of the source at hand. The spec has
  the renderer "compute the straight-line delta and its unit normal" and
  "clamp(length / 5, 12, 20)": sum and difference by components, the vector scaled to
  length one (the zero vector stays zero), the quarter turn of a vector, and the value
  held between the two bounds.
\<close>

definition Vector_add :: "vec \<Rightarrow> vec \<Rightarrow> vec" where
  "Vector_add a b = \<lparr>vx = vx a + vx b, vy = vy a + vy b\<rparr>"

definition Vector_sub :: "vec \<Rightarrow> vec \<Rightarrow> vec" where
  "Vector_sub a b = \<lparr>vx = vx a - vx b, vy = vy a - vy b\<rparr>"

definition Vector_magnitude :: "vec \<Rightarrow> real" where
  "Vector_magnitude v = sqrt (vx v * vx v + vy v * vy v)"

definition Vector_normalise :: "vec \<Rightarrow> vec" where
  "Vector_normalise v =
     (let magnitude = Vector_magnitude v in
      if magnitude = 0 then \<lparr>vx = 0, vy = 0\<rparr>
      else \<lparr>vx = vx v / magnitude, vy = vy v / magnitude\<rparr>)"

definition Vector_perp :: "vec \<Rightarrow> vec" where
  "Vector_perp v = \<lparr>vx = - vy v, vy = vx v\<rparr>"

definition Common_clamp :: "real \<Rightarrow> real \<Rightarrow> real \<Rightarrow> real" where
  "Common_clamp v lo hi = (if v < lo then lo else if v > hi then hi else v)"

record constraint_render =
  cr_visible :: bool
  cr_type :: string
  cr_custom :: bool
  cr_lineWidth :: real
  cr_strokeStyle :: string
  cr_anchors :: bool

text \<open>
  \<open>bodyA\<close> and \<open>bodyB\<close> hold the position of the body at that end, \<open>None\<close> where
  the constraint has no body there.
\<close>

record constraint =
  con_render :: constraint_render
  pointA :: "vec option"
  pointB :: "vec option"
  bodyA :: "vec option"
  bodyB :: "vec option"
  con_length :: real

text \<open>The number of coils of a spring, as line 1170 computes it.\<close>

definition coils :: "real \<Rightarrow> int" where
  "coils len = \<lceil>Common_clamp (len / 5) 12 20\<rceil>"

text \<open>The loop over the coils of a spring, from \<open>j\<close> on.\<close>

function springLoop :: "vec \<Rightarrow> vec \<Rightarrow> vec \<Rightarrow> int \<Rightarrow> int \<Rightarrow> graphics \<Rightarrow> graphics" where
  "springLoop start delta normal n j g =
     (if j < n then
        (let offset = (if j mod 2 = 0 then 1 else - 1)
         in springLoop start delta normal n (j + 1)
              (g @ [LineTo
                     (vx start + vx delta * (real_of_int j / real_of_int n) + vx normal * offset * 4)
                     (vy start + vy delta * (real_of_int j / real_of_int n) + vy normal * offset * 4)]))
      else g)"
  by pat_completeness auto
termination
  by (relation "measure (\<lambda>(start, delta, normal, n, j, g). nat (n - j))") auto

declare springLoop.simps [simp del]

text \<open>
  \<open>Common.colorToNumber\<close> is not part of the source at hand either: it is the argument
  \<open>colorToNumber\<close>. In the pin branch \<open>end\<close> stays undefined, so drawing the anchors
  there throws.
\<close>

definition renderConstraint ::
  "(string \<Rightarrow> color) \<Rightarrow> constraint \<Rightarrow> graphics \<Rightarrow> color \<Rightarrow> real \<Rightarrow> color \<Rightarrow> color \<Rightarrow> real \<Rightarrow>
   color \<Rightarrow> real \<Rightarrow> error + graphics" where
  "renderConstraint colorToNumber constraint g lineColor lineThickness' springColor' pinColor'
     pinSize' anchorColor' anchorSize' =
     (let render = con_render constraint in
      case (pointA constraint, pointB constraint) of
        (Some pA, Some pB) \<Rightarrow>
          if \<not> cr_visible render then Inr g
          else
            (let custom = cr_custom render;
                 g1 = (if custom
                       then g @ [LineStyle (cr_lineWidth render)
                                   (colorToNumber (cr_strokeStyle render)) None]
                       else g @ [LineStyle lineThickness' lineColor None]);
                 start = (case bodyA constraint of
                            Some position \<Rightarrow> Vector_add position pA
                          | None \<Rightarrow> pA)
             in if cr_type render = ''pin'' then
                  (let g2 = (if \<not> custom then g1 @ [LineStyle lineThickness' pinColor' None]
                             else g1);
                       g3 = g2 @ [StrokeCircle (vx start) (vy start) pinSize'];
                       g4 = g3 @ [StrokePath]
                   in if cr_anchors render \<and> anchorSize' > 0 then Inl TypeError else Inr g4)
                else
                  (let end' = (case bodyB constraint of
                                 Some position \<Rightarrow> Vector_add position pB
                               | None \<Rightarrow> pB);
                       g2 = g1 @ [BeginPath, MoveTo (vx start) (vy start)];
                       g3 = (if cr_type render = ''spring'' then
                               (let g2a = (if \<not> custom
                                           then g2 @ [LineStyle lineThickness' springColor' None]
                                           else g2);
                                    delta = Vector_sub end' start;
                                    normal = Vector_perp (Vector_normalise delta)
                                in springLoop start delta normal (coils (con_length constraint)) 1 g2a)
                             else g2);
                       g4 = g3 @ [LineTo (vx end') (vy end')];
                       g5 = g4 @ [StrokePath]
                   in if cr_anchors render \<and> anchorSize' > 0
                      then Inr (g5 @ [FillStyle anchorColor' None,
                                      FillCircle (vx start) (vy start) anchorSize',
                                      FillCircle (vx end') (vy end') anchorSize'])
                      else Inr g5))
      | _ \<Rightarrow> Inr g)"

subsection \<open>Sequences of boundary updates\<close>

text \<open>
  The body that \<open>updateWall\<close> asks \<open>create\<close> for, given its centre and size.
\<close>

definition wallBody :: "real \<Rightarrow> real \<Rightarrow> real \<Rightarrow> real \<Rightarrow> rect_body" where
  "wallBody x y width height =
     Bodies_rectangle x y width height
       \<lparr>opt_isStatic = True, opt_friction = 0, opt_frictionStatic = 0\<rparr>"

text \<open>
  A call of \<open>setBounds\<close> or of \<open>updateWall\<close> with its arguments, and the World after
  a sequence of such calls.
\<close>

datatype boundary_call =
  SetBounds "real option" "real option" "real option" "real option" "real option"
    "bool option" "bool option" "bool option" "bool option"
  | UpdateWall bool string real real real real

fun apply_call :: "world \<Rightarrow> boundary_call \<Rightarrow> world" where
  "apply_call w (SetBounds x y width height thickness l r t b) =
     setBounds w x y width height thickness l r t b"
| "apply_call w (UpdateWall add position x y width height) =
     updateWall w add position x y width height"

text \<open>
  Whether a call updates a side, and with which inclusion flag (an omitted flag of
  \<open>setBounds\<close> counts as true); and the flag of the most recent call of a sequence
  that updates the side, \<open>None\<close> where no call does.
\<close>

fun call_flag :: "boundary_call \<Rightarrow> string \<Rightarrow> bool option" where
  "call_flag (SetBounds x y width height thickness l r t b) side =
     (if side = ''bottom'' then Some (case b of None \<Rightarrow> True | Some v \<Rightarrow> v)
      else if side = ''top'' then Some (case t of None \<Rightarrow> True | Some v \<Rightarrow> v)
      else if side = ''right'' then Some (case r of None \<Rightarrow> True | Some v \<Rightarrow> v)
      else if side = ''left'' then Some (case l of None \<Rightarrow> True | Some v \<Rightarrow> v)
      else None)"
| "call_flag (UpdateWall add position x y width height) side =
     (if side = position then Some add else None)"

fun most_recent_flag :: "boundary_call list \<Rightarrow> string \<Rightarrow> bool option" where
  "most_recent_flag [] side = None"
| "most_recent_flag (c # cs) side =
     (case most_recent_flag cs side of Some f \<Rightarrow> Some f | None \<Rightarrow> call_flag c side)"

subsection \<open>The styles among draw calls\<close>

text \<open>
  Every \<open>fillStyle\<close> among the calls \<open>ops\<close> has the given fill colour, every
  \<open>lineStyle\<close> the given stroke colour and thickness, and the alpha of each satisfies
  \<open>alphaOk\<close>.
\<close>

definition styled ::
  "color option \<Rightarrow> color option \<Rightarrow> real \<Rightarrow> (real option \<Rightarrow> bool) \<Rightarrow> draw_op list \<Rightarrow> bool" where
  "styled lineColor fillColor' thickness alphaOk ops =
     (\<forall>op \<in> set ops.
        case op of
          FillStyle c a \<Rightarrow> fillColor' = Some c \<and> alphaOk a
        | LineStyle t c a \<Rightarrow> lineColor = Some c \<and> t = thickness \<and> alphaOk a
        | _ \<Rightarrow> True)"

subsection \<open>What is drawn of a body\<close>




subsection \<open>Concrete inputs\<close>

text \<open>
  The World as its constructor leaves it for an empty configuration, in a scene of 800
  by 600: no walls, enabled, correction 1, the 60Hz timestep, automatic updates.
\<close>

definition world0 :: world where
  "world0 =
     \<lparr>sceneWidth = 800, sceneHeight = 600, engine = [],
      localWorld = \<lparr>bodies = [], gravity = \<lparr>gravity_x = 0, gravity_y = 1, gravity_scale = 0.001\<rparr>\<rparr>,
      walls = (\<lambda>position. None), enabled = True, correction = 1, getDelta = update60Hz,
      autoUpdate = True, emitted = [], nextRef = 0\<rparr>"

text \<open>
  A square part whose second vertex is flagged internal, and the default debug
  configuration of the constructor.
\<close>

definition quad :: part where
  "quad =
     \<lparr>part_render = \<lparr>visible = True, opacity = 1\<rparr>, circleRadius = None,
      part_position = \<lparr>vx = 5, vy = 5\<rparr>,
      part_vertices =
        [\<lparr>vert_x = 0, vert_y = 0, isInternal = False\<rparr>,
         \<lparr>vert_x = 10, vert_y = 0, isInternal = True\<rparr>,
         \<lparr>vert_x = 10, vert_y = 10, isInternal = False\<rparr>,
         \<lparr>vert_x = 0, vert_y = 10, isInternal = False\<rparr>]\<rparr>"

definition config0 :: debug_config where
  "config0 =
     \<lparr>showBody = True, showStaticBody = True, showSleeping = False, showJoint = True,
      showInternalEdges = False, showConvexHulls = False, renderFill = True,
      renderStroke = True, lineThickness = 1, fillColor = 0x106909, strokeColor = 0x28de19,
      staticFillColor = 0x0d177b, staticStrokeColor = 0x1327e4, staticBodySleepOpacity = 0.7,
      sleepFillColor = 0x464646, sleepStrokeColor = 0x999a99, jointColor = 0xe0e042,
      jointLineThickness = 2, pinSize = 4, pinColor = 0x42e0e0, springColor = 0xe042e0,
      anchorColor = 0xefefef, anchorSize = 6, hullColor = 0xd703d0\<rparr>"

text \<open>
  Bodies of one part, the square: a sleeping dynamic body, fully opaque; the same body
  with its render flag off; and a visible dynamic body of opacity 0, whose part is the
  body itself and so has the same render settings.
\<close>

definition solid :: body where
  "solid =
     \<lparr>body_render = \<lparr>visible = True, opacity = 1\<rparr>, isStatic = False, isSleeping = True,
      parts = [quad], body_vertices = part_vertices quad\<rparr>"



text \<open>
  A visible spring between the world points (0, 0) and (12, 0), of length 50, with the
  default style and no anchors.
\<close>

definition spring0 :: constraint where
  "spring0 =
     \<lparr>con_render = \<lparr>cr_visible = True, cr_type = ''spring'', cr_custom = False,
        cr_lineWidth = 2, cr_strokeStyle = ''#ffffff'', cr_anchors = False\<rparr>,
      pointA = Some \<lparr>vx = 0, vy = 0\<rparr>, pointB = Some \<lparr>vx = 12, vy = 0\<rparr>,
      bodyA = None, bodyB = None, con_length = 50\<rparr>"

text \<open>
  A sleeping dynamic body of two parts and of opacity 0, whose second part has the
  opacity 1/2.
\<close>

definition layered :: body where
  "layered =
     \<lparr>body_render = \<lparr>visible = True, opacity = 0\<rparr>, isStatic = False, isSleeping = True,
      parts = [quad\<lparr>part_render := \<lparr>visible = True, opacity = 0\<rparr>\<rparr>,
               quad\<lparr>part_render := \<lparr>visible = True, opacity = 1 / 2\<rparr>\<rparr>],
      body_vertices = part_vertices quad\<rparr>"

section \<open>Properties\<close>

subsection \<open>Gravity\<close>

text \<open>
  C10: a call \<open>setGravity(x, y, scale)\<close> with \<open>scale\<close> undefined sets the x and y
  components of the gravity (0 and 1 where they are left out) and leaves
  \<open>gravity.scale\<close> as it was; the scale changes only where it is supplied, and then
  to the supplied value; \<open>disableGravity\<close> sets all three to 0.
\<close>

theorem setGravity_scale_unchanged:
  "gravity_x (gravity (localWorld (setGravity w x y None))) = (case x of None \<Rightarrow> 0 | Some v \<Rightarrow> v)
   \<and> gravity_y (gravity (localWorld (setGravity w x y None))) = (case y of None \<Rightarrow> 1 | Some v \<Rightarrow> v)
   \<and> gravity_scale (gravity (localWorld (setGravity w x y None))) = gravity_scale (gravity (localWorld w))
   \<and> gravity_scale (gravity (localWorld (setGravity w x y scale))) =
       (case scale of None \<Rightarrow> gravity_scale (gravity (localWorld w)) | Some s \<Rightarrow> s)
   \<and> gravity (localWorld (disableGravity w)) = \<lparr>gravity_x = 0, gravity_y = 0, gravity_scale = 0\<rparr>"
  by (simp add: setGravity_def disableGravity_def Let_def split: option.split)

subsection \<open>The timestep\<close>

text \<open>
  C7: \<open>update(time, delta)\<close> asks the engine for a step exactly when \<open>enabled\<close> and
  \<open>autoUpdate\<close> both hold, and the step then gets \<open>getDelta(time, delta)\<close> and the
  configured correction; otherwise \<open>update\<close> changes nothing. \<open>step(delta, correction)\<close>
  asks the engine for a step with its own arguments whatever \<open>enabled\<close>, \<open>autoUpdate\<close>
  and \<open>getDelta\<close> are.
\<close>

theorem update_step_engine:
  "(engine (update w time delta) \<noteq> engine w \<longleftrightarrow> enabled w \<and> autoUpdate w)
   \<and> (enabled w \<and> autoUpdate w \<longrightarrow>
        engine (update w time delta) =
          engine w @ [(Some (getDelta w time delta), Some (correction w))])
   \<and> (\<not> (enabled w \<and> autoUpdate w) \<longrightarrow> update w time delta = w)
   \<and> engine (step (w\<lparr>enabled := e, autoUpdate := a, getDelta := f\<rparr>) d c) = engine w @ [(d, c)]"
  by (simp add: update_def step_def Engine_update_def)

theorem update_step_engine_witness:
  "enabled world0 \<and> autoUpdate world0
   \<and> engine (update world0 5 16) = [(Some (50 / 3), Some 1)]
   \<and> \<not> (enabled (pause world0) \<and> autoUpdate (pause world0))
   \<and> update (pause world0) 5 16 = pause world0
   \<and> engine (step (pause world0) (Some 16) None) = [(Some 16, None)]"
  using update_step_engine [where w = world0 and time = 5 and delta = 16]
    update_step_engine [where w = "pause world0" and time = 5 and delta = 16 and e = False
      and a = True and f = update60Hz and d = "Some 16" and c = None]
  by (simp add: world0_def update60Hz_def pause_def emit_def)

subsection \<open>Collision groups and categories\<close>

text \<open>
  C9: \<open>resetCollisionIDs()\<close> sets the three counters of the process to 1, -1 and
  0x0001 and returns the World. Whatever World asks next, \<open>nextGroup(false)\<close> (or
  \<open>nextGroup()\<close>) returns 1, \<open>nextGroup(true)\<close> returns -1 and \<open>nextCategory()\<close>
  returns 1, each also after the others have been asked.
\<close>

theorem resetCollisionIDs_restores:
  "snd (resetCollisionIDs w st) =
     \<lparr>Body_nextCollidingGroupId = 1, Body_nextNonCollidingGroupId = - 1, Body_nextCategory = 1\<rparr>
   \<and> fst (resetCollisionIDs w st) = w
   \<and> fst (nextGroup u (Some False) (snd (resetCollisionIDs w st))) = 1
   \<and> fst (nextGroup u None (snd (resetCollisionIDs w st))) = 1
   \<and> fst (nextGroup u (Some True) (snd (resetCollisionIDs w st))) = - 1
   \<and> fst (nextCategory u (snd (resetCollisionIDs w st))) = 1
   \<and> fst (nextGroup u (Some True) (snd (nextGroup v (Some False) (snd (resetCollisionIDs w st))))) = - 1
   \<and> fst (nextCategory u (snd (nextGroup v (Some True)
        (snd (nextGroup v (Some False) (snd (resetCollisionIDs w st))))))) = 1"
  by (cases st) (simp add: resetCollisionIDs_def nextGroup_def nextCategory_def
      MatterBody_nextGroup_def MatterBody_nextCategory_def Let_def)

subsection \<open>The event bridge\<close>

text \<open>
  C8: when the engine raises \<open>collisionStart\<close>, \<open>collisionActive\<close> or
  \<open>collisionEnd\<close>, the listeners registered by \<open>setEventsProxy\<close> make the World emit,
  before the notification returns, exactly one event: the matching World event, with
  the raw event object, and with \<open>bodyA\<close> and \<open>bodyB\<close> of the first pair of the
  event, or both undefined where the event has no pair.
\<close>

theorem collision_events_carry_first_pair:
  "MatterEvents_trigger setEventsProxy ''collisionStart'' event w =
     w\<lparr>emitted := emitted w @
        [\<lparr>em_name = COLLISION_START, em_event = Some event,
          em_bodyA = (case event_pairs event of [] \<Rightarrow> None | p # ps \<Rightarrow> Some (pair_bodyA p)),
          em_bodyB = (case event_pairs event of [] \<Rightarrow> None | p # ps \<Rightarrow> Some (pair_bodyB p))\<rparr>]\<rparr>
   \<and> MatterEvents_trigger setEventsProxy ''collisionActive'' event w =
     w\<lparr>emitted := emitted w @
        [\<lparr>em_name = COLLISION_ACTIVE, em_event = Some event,
          em_bodyA = (case event_pairs event of [] \<Rightarrow> None | p # ps \<Rightarrow> Some (pair_bodyA p)),
          em_bodyB = (case event_pairs event of [] \<Rightarrow> None | p # ps \<Rightarrow> Some (pair_bodyB p))\<rparr>]\<rparr>
   \<and> MatterEvents_trigger setEventsProxy ''collisionEnd'' event w =
     w\<lparr>emitted := emitted w @
        [\<lparr>em_name = COLLISION_END, em_event = Some event,
          em_bodyA = (case event_pairs event of [] \<Rightarrow> None | p # ps \<Rightarrow> Some (pair_bodyA p)),
          em_bodyB = (case event_pairs event of [] \<Rightarrow> None | p # ps \<Rightarrow> Some (pair_bodyB p))\<rparr>]\<rparr>"
  by (simp add: setEventsProxy_def on_collisionStart_def on_collisionActive_def
      on_collisionEnd_def emit_def Let_def split: list.split)

subsection \<open>The boundary walls\<close>

lemma updateWall_unfold:
  "updateWall w add position x y width height =
     (if add then
        w\<lparr>localWorld := (localWorld w)\<lparr>bodies :=
             filter (\<lambda>p. Some (fst p) \<noteq> walls w position) (bodies (localWorld w)) @
             [(nextRef w,
               \<lparr>rect_x = x + width / 2, rect_y = y + height / 2, rect_width = width,
                rect_height = height, rect_isStatic = True, rect_friction = 0,
                rect_frictionStatic = 0\<rparr>)]\<rparr>,
          walls := (walls w)(position := Some (nextRef w)),
          nextRef := Suc (nextRef w)\<rparr>
      else
        w\<lparr>localWorld := (localWorld w)\<lparr>bodies :=
             filter (\<lambda>p. Some (fst p) \<noteq> walls w position) (bodies (localWorld w))\<rparr>,
          walls := (walls w)(position := None)\<rparr>)"
  by (cases "walls w position")
     (simp_all add: updateWall_def create_def Bodies_rectangle_def MatterWorld_add_def
        MatterWorld_remove_def Let_def)

lemma walls_updateWall:
  "walls (updateWall w add position x y width height) =
     (walls w)(position := if add then Some (nextRef w) else None)"
  by (simp add: updateWall_unfold)

lemma walls_apply_call_flag:
  "(walls (apply_call w c) side \<noteq> None) =
     (case call_flag c side of Some f \<Rightarrow> f | None \<Rightarrow> walls w side \<noteq> None)"
proof (cases c)
  case (SetBounds x y width height thickness l r t b)
  then show ?thesis
    by (cases l; cases r; cases t; cases b)
       (simp_all add: setBounds_def walls_updateWall Let_def)
next
  case (UpdateWall add position x y width height)
  then show ?thesis by (simp add: walls_updateWall)
qed

lemma walls_calls:
  "(walls (foldl apply_call w calls) side \<noteq> None) =
     (case most_recent_flag calls side of Some f \<Rightarrow> f | None \<Rightarrow> walls w side \<noteq> None)"
proof (induction calls arbitrary: w)
  case Nil
  show ?case by simp
next
  case (Cons c cs)
  show ?case
    using Cons.IH [of "apply_call w c"] walls_apply_call_flag [of w c side]
    by (simp split: option.split)
qed

lemma filter_fresh:
  "\<forall>p \<in> set bs. fst p < (n::nat) \<Longrightarrow> n \<le> k \<Longrightarrow> filter (\<lambda>p. fst p \<noteq> k) bs = bs"
  by (induction bs) auto

lemma bodies_updateWall:
  "bodies (localWorld (updateWall w add position x y width height)) =
     filter (\<lambda>p. Some (fst p) \<noteq> walls w position) (bodies (localWorld w)) @
     (if add then [(nextRef w, wallBody (x + width / 2) (y + height / 2) width height)] else [])"
  by (simp add: updateWall_unfold wallBody_def Bodies_rectangle_def)

lemma nextRef_updateWall:
  "nextRef (updateWall w add position x y width height) =
     (if add then Suc (nextRef w) else nextRef w)"
  by (simp add: updateWall_unfold)

lemma setBounds_steps:
  "setBounds w (Some x) (Some y) (Some width) (Some height) None l r t b =
     updateWall
       (updateWall
          (updateWall
             (updateWall w (case l of None \<Rightarrow> True | Some v \<Rightarrow> v) ''left'' (x - 128) (y - 128) 128
                (height + 256))
             (case r of None \<Rightarrow> True | Some v \<Rightarrow> v) ''right'' (x + width) (y - 128) 128 (height + 256))
          (case t of None \<Rightarrow> True | Some v \<Rightarrow> v) ''top'' x (y - 128) width 128)
       (case b of None \<Rightarrow> True | Some v \<Rightarrow> v) ''bottom'' x (y + height) width 128"
  by (simp add: setBounds_def)

lemma setBounds_first:
  fixes x y width height :: real
  assumes none: "\<forall>s. walls w s = None"
    and w1_def: "w1 = setBounds w (Some x) (Some y) (Some width) (Some height) None None None None None"
  shows "bodies (localWorld w1) = bodies (localWorld w) @
          [(nextRef w, wallBody (x - 64) (y + height / 2) 128 (height + 256)),
           (nextRef w + 1, wallBody (x + width + 64) (y + height / 2) 128 (height + 256)),
           (nextRef w + 2, wallBody (x + width / 2) (y - 64) width 128),
           (nextRef w + 3, wallBody (x + width / 2) (y + height + 64) width 128)]"
    and "walls w1 = (walls w)(''left'' := Some (nextRef w), ''right'' := Some (nextRef w + 1),
          ''top'' := Some (nextRef w + 2), ''bottom'' := Some (nextRef w + 3))"
    and "nextRef w1 = nextRef w + 4"
proof -
  define a1 where "a1 = updateWall w True ''left'' (x - 128) (y - 128) 128 (height + 256)"
  define a2 where "a2 = updateWall a1 True ''right'' (x + width) (y - 128) 128 (height + 256)"
  define a3 where "a3 = updateWall a2 True ''top'' x (y - 128) width 128"
  define a4 where "a4 = updateWall a3 True ''bottom'' x (y + height) width 128"
  have w1: "w1 = a4"
    by (simp add: w1_def setBounds_steps a4_def a3_def a2_def a1_def)
  have s1: "bodies (localWorld a1) = bodies (localWorld w) @
        [(nextRef w, wallBody (x - 64) (y + height / 2) 128 (height + 256))]"
      "walls a1 = (walls w)(''left'' := Some (nextRef w))" "nextRef a1 = nextRef w + 1"
    using none by (simp_all add: a1_def bodies_updateWall walls_updateWall nextRef_updateWall
        add_divide_distrib)
  have s2: "bodies (localWorld a2) = bodies (localWorld a1) @
        [(nextRef w + 1, wallBody (x + width + 64) (y + height / 2) 128 (height + 256))]"
      "walls a2 = (walls a1)(''right'' := Some (nextRef w + 1))" "nextRef a2 = nextRef w + 2"
    using none s1(2,3) by (simp_all add: a2_def bodies_updateWall walls_updateWall
        nextRef_updateWall add_divide_distrib)
  have s3: "bodies (localWorld a3) = bodies (localWorld a2) @
        [(nextRef w + 2, wallBody (x + width / 2) (y - 64) width 128)]"
      "walls a3 = (walls a2)(''top'' := Some (nextRef w + 2))" "nextRef a3 = nextRef w + 3"
    using none s1(2) s2(2,3) by (simp_all add: a3_def bodies_updateWall walls_updateWall
        nextRef_updateWall)
  have s4: "bodies (localWorld a4) = bodies (localWorld a3) @
        [(nextRef w + 3, wallBody (x + width / 2) (y + height + 64) width 128)]"
      "walls a4 = (walls a3)(''bottom'' := Some (nextRef w + 3))" "nextRef a4 = nextRef w + 4"
    using none s1(2) s2(2) s3(2,3) by (simp_all add: a4_def bodies_updateWall walls_updateWall
        nextRef_updateWall)
  show "bodies (localWorld w1) = bodies (localWorld w) @
          [(nextRef w, wallBody (x - 64) (y + height / 2) 128 (height + 256)),
           (nextRef w + 1, wallBody (x + width + 64) (y + height / 2) 128 (height + 256)),
           (nextRef w + 2, wallBody (x + width / 2) (y - 64) width 128),
           (nextRef w + 3, wallBody (x + width / 2) (y + height + 64) width 128)]"
    by (simp add: w1 s4(1) s3(1) s2(1) s1(1))
  show "walls w1 = (walls w)(''left'' := Some (nextRef w), ''right'' := Some (nextRef w + 1),
          ''top'' := Some (nextRef w + 2), ''bottom'' := Some (nextRef w + 3))"
    by (simp add: w1 s4(2) s3(2) s2(2) s1(2))
  show "nextRef w1 = nextRef w + 4"
    by (simp add: w1 s4(3))
qed

lemma setBounds_second:
  fixes x y width height :: real
  assumes none: "\<forall>s. walls w s = None"
    and fresh: "\<forall>p \<in> set (bodies (localWorld w)). fst p < nextRef w"
    and w1_def: "w1 = setBounds w (Some x) (Some y) (Some width) (Some height) None None None None None"
    and w2_def: "w2 = setBounds w1 (Some x) (Some y) (Some width) (Some height) None (Some False) None None None"
  shows "bodies (localWorld w2) = bodies (localWorld w) @
          [(nextRef w + 4, wallBody (x + width + 64) (y + height / 2) 128 (height + 256)),
           (nextRef w + 5, wallBody (x + width / 2) (y - 64) width 128),
           (nextRef w + 6, wallBody (x + width / 2) (y + height + 64) width 128)]"
    and "walls w2 = (walls w)(''left'' := None, ''right'' := Some (nextRef w + 4),
          ''top'' := Some (nextRef w + 5), ''bottom'' := Some (nextRef w + 6))"
proof -
  note first = setBounds_first [OF none w1_def]
  have keep: "\<And>k. nextRef w \<le> k \<Longrightarrow>
      filter (\<lambda>p. fst p \<noteq> k) (bodies (localWorld w)) = bodies (localWorld w)"
    using fresh by (rule filter_fresh)
  define b1 where "b1 = updateWall w1 False ''left'' (x - 128) (y - 128) 128 (height + 256)"
  define b2 where "b2 = updateWall b1 True ''right'' (x + width) (y - 128) 128 (height + 256)"
  define b3 where "b3 = updateWall b2 True ''top'' x (y - 128) width 128"
  define b4 where "b4 = updateWall b3 True ''bottom'' x (y + height) width 128"
  have w2: "w2 = b4"
    by (simp add: w2_def setBounds_steps b4_def b3_def b2_def b1_def)
  have s1: "bodies (localWorld b1) = bodies (localWorld w) @
        [(nextRef w + 1, wallBody (x + width + 64) (y + height / 2) 128 (height + 256)),
         (nextRef w + 2, wallBody (x + width / 2) (y - 64) width 128),
         (nextRef w + 3, wallBody (x + width / 2) (y + height + 64) width 128)]"
      "walls b1 = (walls w1)(''left'' := None)" "nextRef b1 = nextRef w + 4"
    by (simp_all add: b1_def bodies_updateWall walls_updateWall nextRef_updateWall first keep)
  have s2: "bodies (localWorld b2) = bodies (localWorld w) @
        [(nextRef w + 2, wallBody (x + width / 2) (y - 64) width 128),
         (nextRef w + 3, wallBody (x + width / 2) (y + height + 64) width 128),
         (nextRef w + 4, wallBody (x + width + 64) (y + height / 2) 128 (height + 256))]"
      "walls b2 = (walls b1)(''right'' := Some (nextRef w + 4))" "nextRef b2 = nextRef w + 5"
    by (simp_all add: b2_def bodies_updateWall walls_updateWall nextRef_updateWall s1 first keep
        add_divide_distrib)
  have s3: "bodies (localWorld b3) = bodies (localWorld w) @
        [(nextRef w + 3, wallBody (x + width / 2) (y + height + 64) width 128),
         (nextRef w + 4, wallBody (x + width + 64) (y + height / 2) 128 (height + 256)),
         (nextRef w + 5, wallBody (x + width / 2) (y - 64) width 128)]"
      "walls b3 = (walls b2)(''top'' := Some (nextRef w + 5))" "nextRef b3 = nextRef w + 6"
    by (simp_all add: b3_def bodies_updateWall walls_updateWall nextRef_updateWall s2 s1 first keep)
  have s4: "bodies (localWorld b4) = bodies (localWorld w) @
        [(nextRef w + 4, wallBody (x + width + 64) (y + height / 2) 128 (height + 256)),
         (nextRef w + 5, wallBody (x + width / 2) (y - 64) width 128),
         (nextRef w + 6, wallBody (x + width / 2) (y + height + 64) width 128)]"
      "walls b4 = (walls b3)(''bottom'' := Some (nextRef w + 6))"
    by (simp_all add: b4_def bodies_updateWall walls_updateWall nextRef_updateWall s3 s2 s1 first
        keep)
  show "bodies (localWorld w2) = bodies (localWorld w) @
          [(nextRef w + 4, wallBody (x + width + 64) (y + height / 2) 128 (height + 256)),
           (nextRef w + 5, wallBody (x + width / 2) (y - 64) width 128),
           (nextRef w + 6, wallBody (x + width / 2) (y + height + 64) width 128)]"
    by (simp add: w2 s4(1))
  show "walls w2 = (walls w)(''left'' := None, ''right'' := Some (nextRef w + 4),
          ''top'' := Some (nextRef w + 5), ''bottom'' := Some (nextRef w + 6))"
    by (simp add: w2 s4(2) s3(2) s2(2) s1(2) first(2) fun_eq_iff)
qed

lemma setBounds_defaults:
  "setBounds w x y width height thickness l r t b =
     setBounds w x y width height thickness
       (Some (case l of None \<Rightarrow> True | Some v \<Rightarrow> v))
       (Some (case r of None \<Rightarrow> True | Some v \<Rightarrow> v))
       (Some (case t of None \<Rightarrow> True | Some v \<Rightarrow> v))
       (Some (case b of None \<Rightarrow> True | Some v \<Rightarrow> v))"
  by (simp add: setBounds_def)

lemma updateWall_rebuilds:
  assumes "walls u side = Some ref" and "ref < nextRef u"
  shows "walls (updateWall u True side a b c d) side = Some (nextRef u)"
    and "nextRef u \<noteq> ref"
    and "ref \<notin> fst ` set (bodies (localWorld (updateWall u True side a b c d)))"
  using assms by (auto simp add: walls_updateWall bodies_updateWall)

text \<open>
  C5: from a World without walls, \<open>setBounds(x, y, width, height)\<close> with the thickness
  and the four flags left out adds exactly four bodies, the left, right, top and bottom
  wall in this order, each a static rectangle with friction 0 and static friction 0,
  centred at its rectangle's centre for the thickness 128. A second call with
  \<open>left = false\<close> leaves exactly three walls, all of them new bodies: the left wall
  is removed and its slot cleared, the other three slots hold the new bodies. A flag
  left out counts as true on every call, and including a side that has a wall removes
  the old body and stores a new one.
\<close>

theorem setBounds_builds_walls:
  "((\<forall>s. walls w s = None) \<and> (\<forall>p \<in> set (bodies (localWorld w)). fst p < nextRef w) \<longrightarrow>
      bodies (localWorld
        (setBounds w (Some x) (Some y) (Some width) (Some height) None None None None None)) =
        bodies (localWorld w) @
          [(nextRef w, wallBody (x - 64) (y + height / 2) 128 (height + 256)),
           (nextRef w + 1, wallBody (x + width + 64) (y + height / 2) 128 (height + 256)),
           (nextRef w + 2, wallBody (x + width / 2) (y - 64) width 128),
           (nextRef w + 3, wallBody (x + width / 2) (y + height + 64) width 128)]
      \<and> walls (setBounds w (Some x) (Some y) (Some width) (Some height) None None None None None) =
        (walls w)(''left'' := Some (nextRef w), ''right'' := Some (nextRef w + 1),
          ''top'' := Some (nextRef w + 2), ''bottom'' := Some (nextRef w + 3))
      \<and> bodies (localWorld
        (setBounds
          (setBounds w (Some x) (Some y) (Some width) (Some height) None None None None None)
          (Some x) (Some y) (Some width) (Some height) None (Some False) None None None)) =
        bodies (localWorld w) @
          [(nextRef w + 4, wallBody (x + width + 64) (y + height / 2) 128 (height + 256)),
           (nextRef w + 5, wallBody (x + width / 2) (y - 64) width 128),
           (nextRef w + 6, wallBody (x + width / 2) (y + height + 64) width 128)]
      \<and> walls
        (setBounds
          (setBounds w (Some x) (Some y) (Some width) (Some height) None None None None None)
          (Some x) (Some y) (Some width) (Some height) None (Some False) None None None) =
        (walls w)(''left'' := None, ''right'' := Some (nextRef w + 4),
          ''top'' := Some (nextRef w + 5), ''bottom'' := Some (nextRef w + 6)))
   \<and> wallBody a b c d =
       \<lparr>rect_x = a, rect_y = b, rect_width = c, rect_height = d, rect_isStatic = True,
        rect_friction = 0, rect_frictionStatic = 0\<rparr>
   \<and> bodies (localWorld (updateWall u True side a b c d)) =
       filter (\<lambda>p. Some (fst p) \<noteq> walls u side) (bodies (localWorld u)) @
       [(nextRef u, wallBody (a + c / 2) (b + d / 2) c d)]
   \<and> setBounds u x0 y0 width0 height0 thickness0 l r t bt =
       setBounds u x0 y0 width0 height0 thickness0
         (Some (case l of None \<Rightarrow> True | Some v \<Rightarrow> v))
         (Some (case r of None \<Rightarrow> True | Some v \<Rightarrow> v))
         (Some (case t of None \<Rightarrow> True | Some v \<Rightarrow> v))
         (Some (case bt of None \<Rightarrow> True | Some v \<Rightarrow> v))
   \<and> (walls u side = Some ref \<and> ref < nextRef u \<longrightarrow>
        walls (updateWall u True side a b c d) side = Some (nextRef u)
        \<and> nextRef u \<noteq> ref
        \<and> ref \<notin> fst ` set (bodies (localWorld (updateWall u True side a b c d))))"
proof -
  have first: "(\<forall>s. walls w s = None) \<and> (\<forall>p \<in> set (bodies (localWorld w)). fst p < nextRef w) \<longrightarrow>
      bodies (localWorld
        (setBounds w (Some x) (Some y) (Some width) (Some height) None None None None None)) =
        bodies (localWorld w) @
          [(nextRef w, wallBody (x - 64) (y + height / 2) 128 (height + 256)),
           (nextRef w + 1, wallBody (x + width + 64) (y + height / 2) 128 (height + 256)),
           (nextRef w + 2, wallBody (x + width / 2) (y - 64) width 128),
           (nextRef w + 3, wallBody (x + width / 2) (y + height + 64) width 128)]
      \<and> walls (setBounds w (Some x) (Some y) (Some width) (Some height) None None None None None) =
        (walls w)(''left'' := Some (nextRef w), ''right'' := Some (nextRef w + 1),
          ''top'' := Some (nextRef w + 2), ''bottom'' := Some (nextRef w + 3))
      \<and> bodies (localWorld
        (setBounds
          (setBounds w (Some x) (Some y) (Some width) (Some height) None None None None None)
          (Some x) (Some y) (Some width) (Some height) None (Some False) None None None)) =
        bodies (localWorld w) @
          [(nextRef w + 4, wallBody (x + width + 64) (y + height / 2) 128 (height + 256)),
           (nextRef w + 5, wallBody (x + width / 2) (y - 64) width 128),
           (nextRef w + 6, wallBody (x + width / 2) (y + height + 64) width 128)]
      \<and> walls
        (setBounds
          (setBounds w (Some x) (Some y) (Some width) (Some height) None None None None None)
          (Some x) (Some y) (Some width) (Some height) None (Some False) None None None) =
        (walls w)(''left'' := None, ''right'' := Some (nextRef w + 4),
          ''top'' := Some (nextRef w + 5), ''bottom'' := Some (nextRef w + 6))"
  proof
    assume h: "(\<forall>s. walls w s = None) \<and> (\<forall>p \<in> set (bodies (localWorld w)). fst p < nextRef w)"
    from h have none: "\<forall>s. walls w s = None" by (rule conjunct1)
    from h have fresh: "\<forall>p \<in> set (bodies (localWorld w)). fst p < nextRef w" by (rule conjunct2)
    note one = setBounds_first(1,2) [OF none refl]
    note two = setBounds_second [OF none fresh refl refl]
    from one [of x y width height] two [of x y width height]
    show "bodies (localWorld
        (setBounds w (Some x) (Some y) (Some width) (Some height) None None None None None)) =
        bodies (localWorld w) @
          [(nextRef w, wallBody (x - 64) (y + height / 2) 128 (height + 256)),
           (nextRef w + 1, wallBody (x + width + 64) (y + height / 2) 128 (height + 256)),
           (nextRef w + 2, wallBody (x + width / 2) (y - 64) width 128),
           (nextRef w + 3, wallBody (x + width / 2) (y + height + 64) width 128)]
      \<and> walls (setBounds w (Some x) (Some y) (Some width) (Some height) None None None None None) =
        (walls w)(''left'' := Some (nextRef w), ''right'' := Some (nextRef w + 1),
          ''top'' := Some (nextRef w + 2), ''bottom'' := Some (nextRef w + 3))
      \<and> bodies (localWorld
        (setBounds
          (setBounds w (Some x) (Some y) (Some width) (Some height) None None None None None)
          (Some x) (Some y) (Some width) (Some height) None (Some False) None None None)) =
        bodies (localWorld w) @
          [(nextRef w + 4, wallBody (x + width + 64) (y + height / 2) 128 (height + 256)),
           (nextRef w + 5, wallBody (x + width / 2) (y - 64) width 128),
           (nextRef w + 6, wallBody (x + width / 2) (y + height + 64) width 128)]
      \<and> walls
        (setBounds
          (setBounds w (Some x) (Some y) (Some width) (Some height) None None None None None)
          (Some x) (Some y) (Some width) (Some height) None (Some False) None None None) =
        (walls w)(''left'' := None, ''right'' := Some (nextRef w + 4),
          ''top'' := Some (nextRef w + 5), ''bottom'' := Some (nextRef w + 6))"
      by (intro conjI)
  qed
  have body: "wallBody a b c d =
       \<lparr>rect_x = a, rect_y = b, rect_width = c, rect_height = d, rect_isStatic = True,
        rect_friction = 0, rect_frictionStatic = 0\<rparr>"
    by (simp add: wallBody_def Bodies_rectangle_def)
  have centre: "bodies (localWorld (updateWall u True side a b c d)) =
       filter (\<lambda>p. Some (fst p) \<noteq> walls u side) (bodies (localWorld u)) @
       [(nextRef u, wallBody (a + c / 2) (b + d / 2) c d)]"
    by (simp add: bodies_updateWall)
  have rebuilt: "walls u side = Some ref \<and> ref < nextRef u \<longrightarrow>
        walls (updateWall u True side a b c d) side = Some (nextRef u)
        \<and> nextRef u \<noteq> ref
        \<and> ref \<notin> fst ` set (bodies (localWorld (updateWall u True side a b c d)))"
    by (intro impI conjI, (elim conjE, erule (1) updateWall_rebuilds)+)
  from first body centre setBounds_defaults [of u x0 y0 width0 height0 thickness0 l r t bt] rebuilt
  show ?thesis by (intro conjI)
qed

theorem setBounds_builds_walls_witness:
  "bodies (localWorld
      (setBounds world0 (Some 0) (Some 0) (Some 800) (Some 600) None None None None None)) =
     [(0, wallBody (- 64) 300 128 856), (1, wallBody 864 300 128 856),
      (2, wallBody 400 (- 64) 800 128), (3, wallBody 400 664 800 128)]
   \<and> bodies (localWorld
      (setBounds
        (setBounds world0 (Some 0) (Some 0) (Some 800) (Some 600) None None None None None)
        (Some 0) (Some 0) (Some 800) (Some 600) None (Some False) None None None)) =
     [(4, wallBody 864 300 128 856), (5, wallBody 400 (- 64) 800 128),
      (6, wallBody 400 664 800 128)]
   \<and> walls
      (setBounds
        (setBounds world0 (Some 0) (Some 0) (Some 800) (Some 600) None None None None None)
        (Some 0) (Some 0) (Some 800) (Some 600) None (Some False) None None None) ''left'' = None
   \<and> walls
      (setBounds
        (setBounds world0 (Some 0) (Some 0) (Some 800) (Some 600) None None None None None)
        (Some 0) (Some 0) (Some 800) (Some 600) None (Some False) None None None) ''right'' = Some 4
   \<and> walls (updateWall world0 True ''left'' 0 0 10 10) ''left'' = Some 0
   \<and> 0 < nextRef (updateWall world0 True ''left'' 0 0 10 10)
   \<and> walls (updateWall (updateWall world0 True ''left'' 0 0 10 10) True ''left'' 0 0 10 10) ''left'' =
       Some 1
   \<and> 0 \<notin> fst ` set (bodies (localWorld
        (updateWall (updateWall world0 True ''left'' 0 0 10 10) True ''left'' 0 0 10 10)))"
  using setBounds_builds_walls [where w = world0 and x = 0 and y = 0 and width = 800
      and height = 600 and u = "updateWall world0 True ''left'' 0 0 10 10" and side = "''left''"
      and ref = 0 and a = 0 and b = 0 and c = 10 and d = 10 and ?x0.0 = None and ?y0.0 = None
      and ?width0.0 = None and ?height0.0 = None and ?thickness0.0 = None and l = None
      and r = None and t = None and bt = None]
  by (simp add: world0_def walls_updateWall nextRef_updateWall bodies_updateWall)

text \<open>
  C6: \<open>updateWall\<close> with \<open>add\<close> false leaves the slot of its side empty, and with
  \<open>add\<close> true leaves in it the reference of a body of the world; and after any
  sequence of calls of \<open>setBounds\<close> and \<open>updateWall\<close> the slot of a side is
  non-null exactly if the most recent call that updated the side included it (where no
  call of the sequence updated the side, the slot is as it was).
\<close>

theorem walls_nonnull_iff_included:
  "walls (updateWall w False side x y width height) side = None
   \<and> walls (updateWall w True side x y width height) side = Some (nextRef w)
   \<and> (nextRef w, Bodies_rectangle (x + width / 2) (y + height / 2) width height
          \<lparr>opt_isStatic = True, opt_friction = 0, opt_frictionStatic = 0\<rparr>)
       \<in> set (bodies (localWorld (updateWall w True side x y width height)))
   \<and> (walls (foldl apply_call w calls) side \<noteq> None) =
       (case most_recent_flag calls side of Some f \<Rightarrow> f | None \<Rightarrow> walls w side \<noteq> None)"
  using walls_calls [of w calls side]
  by (simp add: updateWall_unfold Bodies_rectangle_def)

theorem walls_nonnull_iff_included_witness:
  "walls (foldl apply_call world0
      [SetBounds (Some 0) (Some 0) (Some 800) (Some 600) None None None None None,
       SetBounds (Some 0) (Some 0) (Some 800) (Some 600) None (Some False) None None None,
       UpdateWall False ''top'' 0 0 800 128]) ''left'' = None
   \<and> walls (foldl apply_call world0
      [SetBounds (Some 0) (Some 0) (Some 800) (Some 600) None None None None None,
       SetBounds (Some 0) (Some 0) (Some 800) (Some 600) None (Some False) None None None,
       UpdateWall False ''top'' 0 0 800 128]) ''right'' \<noteq> None"
  using walls_nonnull_iff_included [where w = world0 and side = "''left''" and calls =
      "[SetBounds (Some 0) (Some 0) (Some 800) (Some 600) None None None None None,
        SetBounds (Some 0) (Some 0) (Some 800) (Some 600) None (Some False) None None None,
        UpdateWall False ''top'' 0 0 800 128]"]
    walls_nonnull_iff_included [where w = world0 and side = "''right''" and calls =
      "[SetBounds (Some 0) (Some 0) (Some 800) (Some 600) None None None None None,
        SetBounds (Some 0) (Some 0) (Some 800) (Some 600) None (Some False) None None None,
        UpdateWall False ''top'' 0 0 800 128]"]
  by simp

subsection \<open>The path of a polygon part\<close>

lemma polygonLoop_closed:
  "polygonLoop vs sie j g =
     g @ concat (map (\<lambda>i.
        (if \<not> isInternal (vs ! (i - 1)) \<or> sie
         then LineTo (vert_x (vs ! i)) (vert_y (vs ! i))
         else MoveTo (vert_x (vs ! i)) (vert_y (vs ! i)))
        # (if isInternal (vs ! i) \<and> \<not> sie
           then [MoveTo (vert_x (vs ! ((i + 1) mod length vs)))
                   (vert_y (vs ! ((i + 1) mod length vs)))]
           else [])) [j..<length vs])"
proof (induction "length vs - j" arbitrary: j g)
  case 0
  then show ?case by (subst polygonLoop.simps) simp
next
  case (Suc n)
  then have less: "j < length vs" by simp
  then have upt: "[j..<length vs] = j # [j + 1..<length vs]"
    by (simp add: upt_conv_Cons)
  have rest: "\<And>g'. polygonLoop vs sie (Suc j) g' =
      g' @ concat (map (\<lambda>i.
        (if \<not> isInternal (vs ! (i - 1)) \<or> sie
         then LineTo (vert_x (vs ! i)) (vert_y (vs ! i))
         else MoveTo (vert_x (vs ! i)) (vert_y (vs ! i)))
        # (if isInternal (vs ! i) \<and> \<not> sie
           then [MoveTo (vert_x (vs ! ((i + 1) mod length vs)))
                   (vert_y (vs ! ((i + 1) mod length vs)))]
           else [])) [Suc j..<length vs])"
    using Suc.hyps(1) [of "Suc j"] Suc.hyps(2) by simp
  show ?case
    using rest by (subst polygonLoop.simps, subst upt) (simp add: less Let_def)
qed

lemma polygonLoop_all_edges:
  "polygonLoop vs True j g =
     g @ map (\<lambda>v. LineTo (vert_x v) (vert_y v)) (drop j vs)"
proof -
  have "map (\<lambda>i. LineTo (vert_x (vs ! i)) (vert_y (vs ! i))) [j..<length vs] =
      map (\<lambda>v. LineTo (vert_x v) (vert_y v)) (drop j vs)"
    by (simp add: list_eq_iff_nth_eq)
  then show ?thesis
    by (simp add: polygonLoop_closed concat_map_singleton)
qed

text \<open>
  C2: for a polygon part (no circle radius, at least one vertex) \<open>renderBody\<close> begins
  a path, moves to vertex 0 and then, for each index \<open>j\<close> from 1 on, in this order:
  draws a line to vertex \<open>j\<close> if vertex \<open>j - 1\<close> is not internal or
  \<open>showInternalEdges\<close> holds, and moves to vertex \<open>j\<close> otherwise; and, if vertex
  \<open>j\<close> is internal and \<open>showInternalEdges\<close> does not hold, moves on to vertex
  \<open>(j + 1) mod vertexCount\<close>. Then it closes the path. With \<open>showInternalEdges\<close>
  every vertex after the first gets a line. For a body of one visible part and an opacity
  other than 0 this path, followed by the fill and the stroke, is all \<open>renderBody\<close> emits.
\<close>

theorem polygon_path_internal_edges:
  "circleRadius part \<in> {None, Some 0} \<and> part_vertices part \<noteq> [] \<longrightarrow>
     partPath part sie g =
       Inr (g @ [BeginPath,
                 MoveTo (vert_x (part_vertices part ! 0)) (vert_y (part_vertices part ! 0))]
            @ concat (map (\<lambda>j.
                (if \<not> isInternal (part_vertices part ! (j - 1)) \<or> sie
                 then LineTo (vert_x (part_vertices part ! j)) (vert_y (part_vertices part ! j))
                 else MoveTo (vert_x (part_vertices part ! j)) (vert_y (part_vertices part ! j)))
                # (if isInternal (part_vertices part ! j) \<and> \<not> sie
                   then [MoveTo
                     (vert_x (part_vertices part ! ((j + 1) mod length (part_vertices part))))
                     (vert_y (part_vertices part ! ((j + 1) mod length (part_vertices part))))]
                   else []))
              [1..<length (part_vertices part)])
            @ [ClosePath])
     \<and> partPath part True g =
       Inr (g @ [BeginPath,
                 MoveTo (vert_x (part_vertices part ! 0)) (vert_y (part_vertices part ! 0))]
            @ map (\<lambda>v. LineTo (vert_x v) (vert_y v)) (tl (part_vertices part))
            @ [ClosePath])
     \<and> (parts body = [part] \<and> visible (part_render part) \<and> alpha \<noteq> 0 \<longrightarrow>
          renderBody body g sie lineColor fillColor' (Some alpha) (Some thickness) =
            (case partPath part sie g of
               Inl e \<Rightarrow> Inl e
             | Inr g1 \<Rightarrow>
                 Inr (g1
                   @ (case fillColor' of Some c \<Rightarrow> [FillStyle c (Some alpha), FillPath]
                      | None \<Rightarrow> [])
                   @ (case lineColor of Some c \<Rightarrow> [LineStyle thickness c (Some alpha), StrokePath]
                      | None \<Rightarrow> []))))"
proof (intro impI conjI)
  assume h: "circleRadius part \<in> {None, Some 0} \<and> part_vertices part \<noteq> []"
  then have poly: "\<not> (circleRadius part \<noteq> None \<and> circleRadius part \<noteq> Some 0)"
    and ne: "part_vertices part \<noteq> []"
    by auto
  show "partPath part sie g =
       Inr (g @ [BeginPath,
                 MoveTo (vert_x (part_vertices part ! 0)) (vert_y (part_vertices part ! 0))]
            @ concat (map (\<lambda>j.
                (if \<not> isInternal (part_vertices part ! (j - 1)) \<or> sie
                 then LineTo (vert_x (part_vertices part ! j)) (vert_y (part_vertices part ! j))
                 else MoveTo (vert_x (part_vertices part ! j)) (vert_y (part_vertices part ! j)))
                # (if isInternal (part_vertices part ! j) \<and> \<not> sie
                   then [MoveTo
                     (vert_x (part_vertices part ! ((j + 1) mod length (part_vertices part))))
                     (vert_y (part_vertices part ! ((j + 1) mod length (part_vertices part))))]
                   else []))
              [1..<length (part_vertices part)])
            @ [ClosePath])"
    unfolding partPath_def Let_def polygonLoop_closed using poly ne by simp
  show "partPath part True g =
       Inr (g @ [BeginPath,
                 MoveTo (vert_x (part_vertices part ! 0)) (vert_y (part_vertices part ! 0))]
            @ map (\<lambda>v. LineTo (vert_x v) (vert_y v)) (tl (part_vertices part))
            @ [ClosePath])"
    unfolding partPath_def Let_def polygonLoop_all_edges using poly ne
    by (simp add: drop_Suc)
  assume r: "parts body = [part] \<and> visible (part_render part) \<and> alpha \<noteq> 0"
  show "renderBody body g sie lineColor fillColor' (Some alpha) (Some thickness) =
            (case partPath part sie g of
               Inl e \<Rightarrow> Inl e
             | Inr g1 \<Rightarrow>
                 Inr (g1
                   @ (case fillColor' of Some c \<Rightarrow> [FillStyle c (Some alpha), FillPath]
                      | None \<Rightarrow> [])
                   @ (case lineColor of Some c \<Rightarrow> [LineStyle thickness c (Some alpha), StrokePath]
                      | None \<Rightarrow> [])))"
    using r
    by (simp add: renderBody_def renderBody_loop.simps [of _ 0]
        renderBody_loop.simps [of _ "Suc 0"] Let_def split: option.split sum.split)
qed

theorem polygon_path_internal_edges_witness:
  "partPath quad False [] =
     Inr [BeginPath, MoveTo 0 0, LineTo 10 0, MoveTo 10 10, MoveTo 10 10, LineTo 0 10, ClosePath]
   \<and> partPath quad True [] =
     Inr [BeginPath, MoveTo 0 0, LineTo 10 0, LineTo 10 10, LineTo 0 10, ClosePath]
   \<and> renderBody \<lparr>body_render = \<lparr>visible = True, opacity = 1\<rparr>, isStatic = False,
        isSleeping = False, parts = [quad], body_vertices = part_vertices quad\<rparr>
        [] False (Some 255) None (Some 1) (Some 2) =
     Inr [BeginPath, MoveTo 0 0, LineTo 10 0, MoveTo 10 10, MoveTo 10 10, LineTo 0 10, ClosePath,
          LineStyle 2 255 (Some 1), StrokePath]"
  using polygon_path_internal_edges [where part = quad and sie = False and g = "[]"
      and body = "\<lparr>body_render = \<lparr>visible = True, opacity = 1\<rparr>, isStatic = False,
        isSleeping = False, parts = [quad], body_vertices = part_vertices quad\<rparr>"
      and alpha = 1 and thickness = 2 and lineColor = "Some 255" and fillColor' = None]
  by (simp add: quad_def upt_rec)

subsection \<open>The parts loop of renderBody and the hull\<close>

lemma partPath_styled:
  assumes "partPath part sie g = Inr g1"
  shows "\<exists>ops. g1 = g @ ops \<and> styled lc fc t ok ops"
proof (cases "circleRadius part \<noteq> None \<and> circleRadius part \<noteq> Some 0")
  case True
  with assms show ?thesis
    by (auto simp add: partPath_def styled_def)
next
  case False
  with assms have ne: "part_vertices part \<noteq> []"
    by (auto simp add: partPath_def Let_def split: if_splits)
  from assms False ne show ?thesis
    by (auto simp add: partPath_def Let_def polygonLoop_closed styled_def split: if_splits)
qed

lemma renderBody_loop_styled:
  "renderBody_loop ps k sie lc fc op0 up t g = Inr g' \<Longrightarrow>
     \<exists>ops. g' = g @ ops \<and> styled lc fc t (\<lambda>a. \<not> up \<longrightarrow> a = op0) ops"
proof (induction "length ps - k" arbitrary: k g op0)
  case 0
  then have "\<not> k < length ps" by simp
  with "0.prems" have "g' = g"
    by (subst (asm) renderBody_loop.simps) simp
  then show ?case by (simp add: styled_def)
next
  case (Suc n)
  then have less: "k < length ps" by simp
  define op1 where "op1 = (if up then Some (opacity (part_render (ps ! k))) else op0)"
  have same: "\<not> up \<Longrightarrow> op1 = op0"
    by (simp add: op1_def)
  have IH: "\<And>g0. renderBody_loop ps (k + 1) sie lc fc op1 up t g0 = Inr g' \<Longrightarrow>
      \<exists>ops. g' = g0 @ ops \<and> styled lc fc t (\<lambda>a. \<not> up \<longrightarrow> a = op1) ops"
    using Suc.hyps(1) [of "k + 1"] Suc.hyps(2) by simp
  show ?case
  proof (cases "\<not> visible (part_render (ps ! k)) \<or> op1 = Some 0")
    case True
    with Suc.prems less have "renderBody_loop ps (k + 1) sie lc fc op1 up t g = Inr g'"
      by (subst (asm) renderBody_loop.simps) (simp add: Let_def op1_def)
    from IH [OF this] show ?thesis
      using same by (cases up) (auto simp add: styled_def)
  next
    case False
    with Suc.prems less obtain g1 where
      path: "partPath (ps ! k) sie g = Inr g1" and
      rest: "renderBody_loop ps (k + 1) sie lc fc op1 up t
        ((case fc of Some c \<Rightarrow> g1 @ [FillStyle c op1, FillPath] | None \<Rightarrow> g1)
         @ (case lc of Some c \<Rightarrow> [LineStyle t c op1, StrokePath] | None \<Rightarrow> [])) = Inr g'"
      by (subst (asm) renderBody_loop.simps)
         (auto simp add: Let_def op1_def split: sum.splits option.splits)
    from partPath_styled [OF path] obtain ops1 where
      g1: "g1 = g @ ops1" and one: "styled lc fc t (\<lambda>a. \<not> up \<longrightarrow> a = op0) ops1"
      by blast
    from IH [OF rest] obtain ops2 where
      g': "g' = ((case fc of Some c \<Rightarrow> g1 @ [FillStyle c op1, FillPath] | None \<Rightarrow> g1)
         @ (case lc of Some c \<Rightarrow> [LineStyle t c op1, StrokePath] | None \<Rightarrow> [])) @ ops2"
      and two: "styled lc fc t (\<lambda>a. \<not> up \<longrightarrow> a = op1) ops2"
      by blast
    have "g' = g @ (ops1
        @ (case fc of Some c \<Rightarrow> [FillStyle c op1, FillPath] | None \<Rightarrow> [])
        @ (case lc of Some c \<Rightarrow> [LineStyle t c op1, StrokePath] | None \<Rightarrow> [])
        @ ops2)"
      by (simp add: g' g1 split: option.split)
    moreover have "styled lc fc t (\<lambda>a. \<not> up \<longrightarrow> a = op0) (ops1
        @ (case fc of Some c \<Rightarrow> [FillStyle c op1, FillPath] | None \<Rightarrow> [])
        @ (case lc of Some c \<Rightarrow> [LineStyle t c op1, StrokePath] | None \<Rightarrow> [])
        @ ops2)"
      using one two same
      by (cases up) (auto simp add: styled_def split: option.splits)
    ultimately show ?thesis by blast
  qed
qed

lemma renderBody_styled:
  assumes "renderBody b g sie lc fc (Some alpha) (Some t) = Inr g'"
  shows "\<exists>ops. g' = g @ ops \<and> styled lc fc t (\<lambda>a. alpha \<noteq> 0 \<longrightarrow> a = Some alpha) ops"
proof -
  from assms renderBody_loop_styled obtain ops where
    "g' = g @ ops" and "styled lc fc t (\<lambda>a. \<not> (alpha = 0) \<longrightarrow> a = Some alpha) ops"
    unfolding renderBody_def Let_def by fastforce
  then show ?thesis by auto
qed










subsection \<open>Which bodies are drawn\<close>



lemma renderBodies_single:
  "renderBodies config g [b] = renderBodies_body config b g"
  by (simp add: renderBodies_def split: sum.split)











subsection \<open>The style of a sleeping body\<close>

text \<open>
  What \<open>renderBodies\<close> does for a visible sleeping body with \<open>showSleeping\<close> on: it
  calls \<open>renderBody\<close> with the sleep colours and the body's own opacity for a dynamic
  body, with the static colours and the opacity multiplied by
  \<open>staticBodySleepOpacity\<close> for a static one (a colour is null where \<open>renderStroke\<close>
  or \<open>renderFill\<close> is off). Every fill and stroke that \<open>renderBody\<close> then sets has
  these colours; its alpha is the opacity passed only where that opacity is not 0.
\<close>

lemma sleeping_body_call:
  "visible (body_render b) \<and> showSleeping config \<and> isSleeping b \<longrightarrow>
     (\<not> isStatic b \<and> showBody config \<longrightarrow>
        renderBodies config g [b] =
          (case renderBody b g (showInternalEdges config)
                  (if renderStroke config then Some (sleepStrokeColor config) else None)
                  (if renderFill config then Some (sleepFillColor config) else None)
                  (Some (opacity (body_render b))) (Some (lineThickness config)) of
             Inl e \<Rightarrow> Inl e
           | Inr g1 \<Rightarrow>
               if showConvexHulls config \<and> length (parts b) > 1
               then renderConvexHull b g1 (hullColor config) (Some (lineThickness config))
               else Inr g1)
        \<and> (\<forall>g1. renderBody b g (showInternalEdges config)
                  (if renderStroke config then Some (sleepStrokeColor config) else None)
                  (if renderFill config then Some (sleepFillColor config) else None)
                  (Some (opacity (body_render b))) (Some (lineThickness config)) = Inr g1 \<longrightarrow>
             (\<exists>ops. g1 = g @ ops
                \<and> styled (if renderStroke config then Some (sleepStrokeColor config) else None)
                     (if renderFill config then Some (sleepFillColor config) else None)
                     (lineThickness config)
                     (\<lambda>a. opacity (body_render b) \<noteq> 0 \<longrightarrow>
                        a = Some (opacity (body_render b))) ops)))
     \<and> (isStatic b \<and> showStaticBody config \<longrightarrow>
        renderBodies config g [b] =
          (case renderBody b g (showInternalEdges config)
                  (if renderStroke config then Some (staticStrokeColor config) else None)
                  (if renderFill config then Some (staticFillColor config) else None)
                  (Some (opacity (body_render b) * staticBodySleepOpacity config))
                  (Some (lineThickness config)) of
             Inl e \<Rightarrow> Inl e
           | Inr g1 \<Rightarrow>
               if showConvexHulls config \<and> length (parts b) > 1
               then renderConvexHull b g1 (hullColor config) (Some (lineThickness config))
               else Inr g1)
        \<and> (\<forall>g1. renderBody b g (showInternalEdges config)
                  (if renderStroke config then Some (staticStrokeColor config) else None)
                  (if renderFill config then Some (staticFillColor config) else None)
                  (Some (opacity (body_render b) * staticBodySleepOpacity config))
                  (Some (lineThickness config)) = Inr g1 \<longrightarrow>
             (\<exists>ops. g1 = g @ ops
                \<and> styled (if renderStroke config then Some (staticStrokeColor config) else None)
                     (if renderFill config then Some (staticFillColor config) else None)
                     (lineThickness config)
                     (\<lambda>a. opacity (body_render b) * staticBodySleepOpacity config \<noteq> 0 \<longrightarrow>
                        a = Some (opacity (body_render b) * staticBodySleepOpacity config)) ops)))"
proof -
  have call: "visible (body_render b) \<and> showSleeping config \<and> isSleeping b \<longrightarrow>
     (\<not> isStatic b \<and> showBody config \<longrightarrow>
        renderBodies config g [b] =
          (case renderBody b g (showInternalEdges config)
                  (if renderStroke config then Some (sleepStrokeColor config) else None)
                  (if renderFill config then Some (sleepFillColor config) else None)
                  (Some (opacity (body_render b))) (Some (lineThickness config)) of
             Inl e \<Rightarrow> Inl e
           | Inr g1 \<Rightarrow>
               if showConvexHulls config \<and> length (parts b) > 1
               then renderConvexHull b g1 (hullColor config) (Some (lineThickness config))
               else Inr g1))
     \<and> (isStatic b \<and> showStaticBody config \<longrightarrow>
        renderBodies config g [b] =
          (case renderBody b g (showInternalEdges config)
                  (if renderStroke config then Some (staticStrokeColor config) else None)
                  (if renderFill config then Some (staticFillColor config) else None)
                  (Some (opacity (body_render b) * staticBodySleepOpacity config))
                  (Some (lineThickness config)) of
             Inl e \<Rightarrow> Inl e
           | Inr g1 \<Rightarrow>
               if showConvexHulls config \<and> length (parts b) > 1
               then renderConvexHull b g1 (hullColor config) (Some (lineThickness config))
               else Inr g1))"
    by (simp add: renderBodies_single renderBodies_body_def Let_def cong: sum.case_cong)
  show ?thesis
    using call renderBody_styled [of b g "showInternalEdges config" _ _ _ "lineThickness config"]
    by blast
qed

text \<open>
  C1: with \<open>showSleeping\<close> on, a visible static sleeping body of opacity 1 is drawn
  in the static colours at alpha 0.7 under the default \<open>staticBodySleepOpacity\<close> 0.7,
  the product the claim states. Under \<open>staticBodySleepOpacity\<close> 0 the product is 0, but
  the body is drawn at alpha 1: \<open>renderBody\<close> reads the opacity 0 it is passed like an
  absent one (\<open>usePartOpacity = !opacity\<close>) and takes the opacity of the part. In the
  same way a sleeping dynamic body of opacity 0 with a part of opacity 1/2 is drawn in
  the sleep colours at alpha 1/2, not at its own opacity.
\<close>

theorem sleeping_opacity_zero_drawn:
  "renderBodies (config0\<lparr>showSleeping := True\<rparr>) [] [solid\<lparr>isStatic := True\<rparr>] =
     Inr [BeginPath, MoveTo 0 0, LineTo 10 0, MoveTo 10 10, MoveTo 10 10, LineTo 0 10, ClosePath,
          FillStyle 0x0d177b (Some 0.7), FillPath, LineStyle 1 0x1327e4 (Some 0.7), StrokePath]
   \<and> opacity (body_render (solid\<lparr>isStatic := True\<rparr>))
       * staticBodySleepOpacity (config0\<lparr>showSleeping := True, staticBodySleepOpacity := 0\<rparr>) = 0
   \<and> renderBodies (config0\<lparr>showSleeping := True, staticBodySleepOpacity := 0\<rparr>) []
       [solid\<lparr>isStatic := True\<rparr>] =
     Inr [BeginPath, MoveTo 0 0, LineTo 10 0, MoveTo 10 10, MoveTo 10 10, LineTo 0 10, ClosePath,
          FillStyle 0x0d177b (Some 1), FillPath, LineStyle 1 0x1327e4 (Some 1), StrokePath]
   \<and> opacity (body_render layered) = 0
   \<and> renderBodies (config0\<lparr>showSleeping := True\<rparr>) [] [layered] =
     Inr [BeginPath, MoveTo 0 0, LineTo 10 0, MoveTo 10 10, MoveTo 10 10, LineTo 0 10, ClosePath,
          FillStyle 0x464646 (Some (1 / 2)), FillPath, LineStyle 1 0x999a99 (Some (1 / 2)),
          StrokePath]"
  by (simp add: renderBodies_single renderBodies_body_def config0_def solid_def layered_def
      quad_def renderBody_def renderBody_loop.simps [of _ 0] renderBody_loop.simps [of _ "Suc 0"]
      renderBody_loop.simps [of _ "Suc (Suc 0)"]
      partPath_def polygonLoop_closed Let_def upt_rec)

subsection \<open>The coils of a spring\<close>

lemma springLoop_closed:
  "springLoop start delta normal n j g =
     g @ map (\<lambda>i. LineTo
         (vx start + vx delta * (real_of_int i / real_of_int n)
            + vx normal * (if i mod 2 = 0 then 1 else - 1) * 4)
         (vy start + vy delta * (real_of_int i / real_of_int n)
            + vy normal * (if i mod 2 = 0 then 1 else - 1) * 4)) [j..n - 1]"
proof (induction "nat (n - j)" arbitrary: j g)
  case 0
  then have "\<not> j < n" by simp
  then show ?case by (subst springLoop.simps) simp
next
  case (Suc k)
  then have less: "j < n" by simp
  then have upto: "[j..n - 1] = j # [j + 1..n - 1]"
    by (simp add: upto_rec1)
  have rest: "\<And>g'. springLoop start delta normal n (j + 1) g' =
      g' @ map (\<lambda>i. LineTo
         (vx start + vx delta * (real_of_int i / real_of_int n)
            + vx normal * (if i mod 2 = 0 then 1 else - 1) * 4)
         (vy start + vy delta * (real_of_int i / real_of_int n)
            + vy normal * (if i mod 2 = 0 then 1 else - 1) * 4)) [j + 1..n - 1]"
    using Suc.hyps(1) [of "j + 1"] Suc.hyps(2) by simp
  show ?case
    using rest by (subst springLoop.simps, subst upto) (simp add: less Let_def)
qed

lemma coils_clamp:
  "coils len = \<lceil>max 12 (min 20 (len / 5))\<rceil>"
  by (simp add: coils_def Common_clamp_def max_def min_def)

lemma coils_bounds:
  "12 \<le> coils len \<and> coils len \<le> 20"
  unfolding coils_clamp by (simp add: le_ceiling_iff ceiling_le_iff max_def min_def)

lemma coils_examples:
  "coils 0 = 12 \<and> coils 50 = 12 \<and> coils 70 = 14 \<and> coils 100 = 20 \<and> coils 1000 = 20"
  by (simp add: coils_def Common_clamp_def)

lemma normal_unit:
  assumes "delta \<noteq> \<lparr>vx = 0, vy = 0\<rparr>"
  shows "vx (Vector_perp (Vector_normalise delta)) * vx delta
           + vy (Vector_perp (Vector_normalise delta)) * vy delta = 0"
    and "vx (Vector_perp (Vector_normalise delta)) * vx (Vector_perp (Vector_normalise delta))
           + vy (Vector_perp (Vector_normalise delta)) * vy (Vector_perp (Vector_normalise delta)) = 1"
proof -
  from assms have nz: "vx delta \<noteq> 0 \<or> vy delta \<noteq> 0"
    by (cases delta) auto
  then have pos: "0 < vx delta * vx delta + vy delta * vy delta"
    by (metis add_pos_nonneg add_nonneg_pos zero_le_square not_real_square_gt_zero)
  from nz have m: "Vector_magnitude delta \<noteq> 0"
    by (auto simp add: Vector_magnitude_def)
  have sq: "Vector_magnitude delta * Vector_magnitude delta =
      vx delta * vx delta + vy delta * vy delta"
    using pos by (simp add: Vector_magnitude_def)
  show "vx (Vector_perp (Vector_normalise delta)) * vx delta
           + vy (Vector_perp (Vector_normalise delta)) * vy delta = 0"
    using m by (simp add: Vector_perp_def Vector_normalise_def Let_def)
  have "(vy delta * vy delta + vx delta * vx delta)
      / (Vector_magnitude delta * Vector_magnitude delta) = 1"
    using nz by (auto simp add: sq add.commute)
  then have "vy delta * vy delta / (Vector_magnitude delta * Vector_magnitude delta)
      + vx delta * vx delta / (Vector_magnitude delta * Vector_magnitude delta) = 1"
    by (simp only: add_divide_distrib)
  then show "vx (Vector_perp (Vector_normalise delta)) * vx (Vector_perp (Vector_normalise delta))
           + vy (Vector_perp (Vector_normalise delta)) * vy (Vector_perp (Vector_normalise delta)) = 1"
    using m by (simp add: Vector_perp_def Vector_normalise_def Let_def)
qed

lemma spring_ops:
  assumes "cr_visible (con_render c)" and "cr_type (con_render c) = ''spring''"
    and "pointA c = Some pA" and "pointB c = Some pB"
  shows "renderConstraint colorToNumber c g lineColor thickness springColor' pinColor' pinSize'
        anchorColor' anchorSize' =
     (let start = (case bodyA c of Some position \<Rightarrow> Vector_add position pA | None \<Rightarrow> pA);
          end' = (case bodyB c of Some position \<Rightarrow> Vector_add position pB | None \<Rightarrow> pB);
          delta = Vector_sub end' start;
          normal = Vector_perp (Vector_normalise delta);
          n = coils (con_length c)
      in Inr (g
           @ [if cr_custom (con_render c)
              then LineStyle (cr_lineWidth (con_render c))
                     (colorToNumber (cr_strokeStyle (con_render c))) None
              else LineStyle thickness lineColor None,
              BeginPath, MoveTo (vx start) (vy start)]
           @ (if cr_custom (con_render c) then [] else [LineStyle thickness springColor' None])
           @ map (\<lambda>j. LineTo
                 (vx start + vx delta * (real_of_int j / real_of_int n)
                    + vx normal * (if j mod 2 = 0 then 1 else - 1) * 4)
                 (vy start + vy delta * (real_of_int j / real_of_int n)
                    + vy normal * (if j mod 2 = 0 then 1 else - 1) * 4)) [1..n - 1]
           @ [LineTo (vx end') (vy end'), StrokePath]
           @ (if cr_anchors (con_render c) \<and> anchorSize' > 0
              then [FillStyle anchorColor' None, FillCircle (vx start) (vy start) anchorSize',
                    FillCircle (vx end') (vy end') anchorSize']
              else [])))"
  using assms
  by (simp add: renderConstraint_def Let_def springLoop_closed)

text \<open>
  C3: the number of coils of a spring is \<open>ceil(clamp(length / 5, 12, 20))\<close>, between
  12 and 20: 12 for the lengths 0 and 50, 14 for 70, 20 for 100 and 1000. For a visible
  spring with both points, \<open>renderConstraint\<close> draws, after the move to the start, one
  line for each \<open>j\<close> from 1 to \<open>coils - 1\<close>, to the point at \<open>j / coils\<close> of the
  way along the delta from start to end, displaced by 4 times the normal, forwards for
  even \<open>j\<close> and backwards for odd \<open>j\<close>, and then the line to the end. Where start
  and end differ, the normal is perpendicular to the delta and of length one.
\<close>

theorem spring_coils:
  "coils len = \<lceil>max 12 (min 20 (len / 5))\<rceil>
   \<and> 12 \<le> coils len \<and> coils len \<le> 20
   \<and> coils 0 = 12 \<and> coils 50 = 12 \<and> coils 70 = 14 \<and> coils 100 = 20 \<and> coils 1000 = 20
   \<and> (cr_visible (con_render c) \<and> cr_type (con_render c) = ''spring''
        \<and> pointA c = Some pA \<and> pointB c = Some pB \<longrightarrow>
        renderConstraint colorToNumber c g lineColor thickness springColor' pinColor' pinSize'
          anchorColor' anchorSize' =
        (let start = (case bodyA c of Some position \<Rightarrow> Vector_add position pA | None \<Rightarrow> pA);
             end' = (case bodyB c of Some position \<Rightarrow> Vector_add position pB | None \<Rightarrow> pB);
             delta = Vector_sub end' start;
             normal = Vector_perp (Vector_normalise delta);
             n = coils (con_length c)
         in Inr (g
              @ [if cr_custom (con_render c)
                 then LineStyle (cr_lineWidth (con_render c))
                        (colorToNumber (cr_strokeStyle (con_render c))) None
                 else LineStyle thickness lineColor None,
                 BeginPath, MoveTo (vx start) (vy start)]
              @ (if cr_custom (con_render c) then [] else [LineStyle thickness springColor' None])
              @ map (\<lambda>j. LineTo
                    (vx start + vx delta * (real_of_int j / real_of_int n)
                       + vx normal * (if j mod 2 = 0 then 1 else - 1) * 4)
                    (vy start + vy delta * (real_of_int j / real_of_int n)
                       + vy normal * (if j mod 2 = 0 then 1 else - 1) * 4)) [1..n - 1]
              @ [LineTo (vx end') (vy end'), StrokePath]
              @ (if cr_anchors (con_render c) \<and> anchorSize' > 0
                 then [FillStyle anchorColor' None, FillCircle (vx start) (vy start) anchorSize',
                       FillCircle (vx end') (vy end') anchorSize']
                 else []))))
   \<and> (delta \<noteq> \<lparr>vx = 0, vy = 0\<rparr> \<longrightarrow>
        vx (Vector_perp (Vector_normalise delta)) * vx delta
          + vy (Vector_perp (Vector_normalise delta)) * vy delta = 0
        \<and> vx (Vector_perp (Vector_normalise delta)) * vx (Vector_perp (Vector_normalise delta))
          + vy (Vector_perp (Vector_normalise delta)) * vy (Vector_perp (Vector_normalise delta))
          = 1)"
  using coils_clamp [of len] coils_bounds [of len] coils_examples
    spring_ops [of c pA pB colorToNumber g lineColor thickness springColor' pinColor' pinSize'
      anchorColor' anchorSize']
    normal_unit [of delta]
  by blast

theorem spring_coils_witness:
  "renderConstraint (\<lambda>s. 0) spring0 [] (jointColor config0) (jointLineThickness config0)
     (springColor config0) (pinColor config0) (pinSize config0) (anchorColor config0)
     (anchorSize config0) =
     Inr [LineStyle 2 0xe0e042 None, BeginPath, MoveTo 0 0, LineStyle 2 0xe042e0 None,
          LineTo 1 (- 4), LineTo 2 4, LineTo 3 (- 4), LineTo 4 4, LineTo 5 (- 4), LineTo 6 4,
          LineTo 7 (- 4), LineTo 8 4, LineTo 9 (- 4), LineTo 10 4, LineTo 11 (- 4),
          LineTo 12 0, StrokePath]
   \<and> \<lparr>vx = 12, vy = 0\<rparr> \<noteq> \<lparr>vx = 0, vy = 0\<rparr>
   \<and> vx (Vector_perp (Vector_normalise \<lparr>vx = 12, vy = 0\<rparr>)) * vx \<lparr>vx = 12, vy = 0\<rparr>
       + vy (Vector_perp (Vector_normalise \<lparr>vx = 12, vy = 0\<rparr>)) * vy \<lparr>vx = 12, vy = 0\<rparr> = 0
   \<and> vx (Vector_perp (Vector_normalise \<lparr>vx = 12, vy = 0\<rparr>))
         * vx (Vector_perp (Vector_normalise \<lparr>vx = 12, vy = 0\<rparr>))
       + vy (Vector_perp (Vector_normalise \<lparr>vx = 12, vy = 0\<rparr>))
         * vy (Vector_perp (Vector_normalise \<lparr>vx = 12, vy = 0\<rparr>)) = 1"
proof -
  note t = spring_coils [where len = 50 and c = spring0 and pA = "\<lparr>vx = 0, vy = 0\<rparr>"
      and pB = "\<lparr>vx = 12, vy = 0\<rparr>" and delta = "\<lparr>vx = 12, vy = 0\<rparr>"
      and colorToNumber = "\<lambda>s. 0" and g = "[]" and lineColor = "jointColor config0"
      and thickness = "jointLineThickness config0" and springColor' = "springColor config0"
      and pinColor' = "pinColor config0" and pinSize' = "pinSize config0"
      and anchorColor' = "anchorColor config0" and anchorSize' = "anchorSize config0"]
  have root: "sqrt 144 = 12"
    by (rule real_sqrt_unique) simp_all
  have normal: "Vector_perp (Vector_normalise \<lparr>vx = 12, vy = 0\<rparr>) = \<lparr>vx = 0, vy = 1\<rparr>"
    by (simp add: Vector_perp_def Vector_normalise_def Vector_magnitude_def root)
  have fields: "cr_visible (con_render spring0)" "cr_type (con_render spring0) = ''spring''"
      "pointA spring0 = Some \<lparr>vx = 0, vy = 0\<rparr>" "pointB spring0 = Some \<lparr>vx = 12, vy = 0\<rparr>"
      "bodyA spring0 = None" "bodyB spring0 = None" "\<not> cr_custom (con_render spring0)"
      "\<not> cr_anchors (con_render spring0)" "con_length spring0 = 50"
    by (simp_all add: spring0_def)
  have config: "jointColor config0 = 0xe0e042" "jointLineThickness config0 = 2"
      "springColor config0 = 0xe042e0"
    by (simp_all add: config0_def)
  from t have n: "coils 50 = 12"
    by blast
  from t fields(1-4) have
    "renderConstraint (\<lambda>s. 0) spring0 [] (jointColor config0) (jointLineThickness config0)
       (springColor config0) (pinColor config0) (pinSize config0) (anchorColor config0)
       (anchorSize config0) =
     Inr [LineStyle 2 0xe0e042 None, BeginPath, MoveTo 0 0, LineStyle 2 0xe042e0 None,
          LineTo 1 (- 4), LineTo 2 4, LineTo 3 (- 4), LineTo 4 4, LineTo 5 (- 4), LineTo 6 4,
          LineTo 7 (- 4), LineTo 8 4, LineTo 9 (- 4), LineTo 10 4, LineTo 11 (- 4),
          LineTo 12 0, StrokePath]"
    by (simp add: Let_def fields config n normal Vector_sub_def upto_rec1)
  moreover have apart: "\<lparr>vx = 12, vy = 0\<rparr> \<noteq> \<lparr>vx = 0, vy = (0::real)\<rparr>"
    by simp
  moreover from t apart have
    "vx (Vector_perp (Vector_normalise \<lparr>vx = 12, vy = 0\<rparr>)) * vx \<lparr>vx = 12, vy = 0\<rparr>
       + vy (Vector_perp (Vector_normalise \<lparr>vx = 12, vy = 0\<rparr>)) * vy \<lparr>vx = 12, vy = 0\<rparr> = 0
     \<and> vx (Vector_perp (Vector_normalise \<lparr>vx = 12, vy = 0\<rparr>))
         * vx (Vector_perp (Vector_normalise \<lparr>vx = 12, vy = 0\<rparr>))
       + vy (Vector_perp (Vector_normalise \<lparr>vx = 12, vy = 0\<rparr>))
         * vy (Vector_perp (Vector_normalise \<lparr>vx = 12, vy = 0\<rparr>)) = 1"
    by blast
  ultimately show ?thesis
    by blast
qed

end
